theory Spec2Isabelle
  imports Main "HOL-Library.AList"
begin

section \<open>Team migration orchestrator (src/module.py): data model\<close>

text \<open>
  The module drives two PyGithub clients (\<open>gh_source\<close>, \<open>gh_target\<close>) and a REST helper
  (\<open>make_github_request\<close>). Everything the platform answers is outside the module, so the
  model takes the platform as a parameter: a record of operations over an arbitrary world
  \<open>'w\<close>, each returning either an exception or a value together with the next world.
  Exceptions are values of \<open>exn\<close>; a Python \<open>try/except\<close> is \<open>tryM\<close>.

  The exception classes are those the module names. In PyGithub
  \<open>RateLimitExceededException\<close> and \<open>UnknownObjectException\<close> are subclasses of
  \<open>GithubException\<close> (all three carry the HTTP status), so an
  \<open>except GithubException\<close> clause catches all three. \<open>RequestException\<close> is the
  \<open>requests\<close> library's base class; \<open>OtherException\<close> stands for any other
  \<open>Exception\<close> (KeyError, AttributeError, ...), which the module never tells apart.
\<close>

datatype exn =
    GithubException nat
  | RateLimitExceededException nat
  | UnknownObjectException nat
  | RequestException
  | OtherException

fun is_GithubException :: "exn \<Rightarrow> bool" where
  "is_GithubException (GithubException _) = True"
| "is_GithubException (RateLimitExceededException _) = True"
| "is_GithubException (UnknownObjectException _) = True"
| "is_GithubException _ = False"

fun is_RateLimitExceededException :: "exn \<Rightarrow> bool" where
  "is_RateLimitExceededException (RateLimitExceededException _) = True"
| "is_RateLimitExceededException _ = False"

fun is_UnknownObjectException :: "exn \<Rightarrow> bool" where
  "is_UnknownObjectException (UnknownObjectException _) = True"
| "is_UnknownObjectException _ = False"

fun is_RequestException :: "exn \<Rightarrow> bool" where
  "is_RequestException RequestException = True"
| "is_RequestException _ = False"

text \<open>\<open>e.status\<close> of a GithubException; the other classes have no such attribute.\<close>

fun exn_status :: "exn \<Rightarrow> nat option" where
  "exn_status (GithubException n) = Some n"
| "exn_status (RateLimitExceededException n) = Some n"
| "exn_status (UnknownObjectException n) = Some n"
| "exn_status _ = None"

datatype client = GhSource | GhTarget

datatype level = LInfo | LWarning | LError | LSuccess

text \<open>
  A PyGithub team object: the fields the module reads, and the client it is bound to.
  \<open>t_description\<close> may be None; \<open>t_parent\<close> is the parent's slug, None for a root.
\<close>

record team =
  t_client :: client
  t_id :: nat
  t_name :: string
  t_slug :: string
  t_description :: "string option"
  t_privacy :: string
  t_parent :: "string option"

text \<open>
  An external (IDP) group as the REST API returns it: a JSON object with the keys
  \<open>group_id\<close> and \<open>group_name\<close>. A field is None when its JSON value is null.
\<close>

record ext_group =
  g_id :: "nat option"
  g_name :: "string option"

text \<open>
  The REST helper \<open>make_github_request(method, url, headers, json_data)\<close>. The three URL
  shapes the module builds are
  \<open>/orgs/{org}/teams/{slug}/external-groups\<close>,
  \<open>/orgs/{org}/external-groups?display_name={name}\<close> and
  \<open>/orgs/{org}/teams/{slug}/memberships/{user}\<close>. The only body it sends is
  \<open>{'group_id': group_id}\<close>.
\<close>

datatype http_method = GET | PATCH | DELETE

datatype endpoint =
    TeamExternalGroups string string
  | ExternalGroups string string
  | TeamMemberships string string string

datatype request = Request http_method endpoint "nat option option"

text \<open>
  A response: the status code and what \<open>response.json()\<close> gives, read the way the module
  reads it: \<open>Inl e\<close> when \<open>json()\<close> raises \<open>e\<close>, \<open>Inr None\<close> when the document
  has no \<open>'groups'\<close> entry, and \<open>Inr (Some gs)\<close> for the list under \<open>'groups'\<close>.
  \<open>response.text\<close> only occurs in log messages of the modelled functions and is left out.
\<close>

record response =
  status_code :: nat
  json :: "exn + ext_group list option"

section \<open>Strings\<close>

text \<open>
  A Python \<open>str\<close> is a sequence of code points; a \<open>char\<close> of the model is a code point
  below 256 (Latin-1), and text with other code points is outside the model. On these code
  points \<open>str.lower()\<close> maps A-Z and the accented capitals 192-214 and 216-222 to the
  letter 32 above, and \<open>str.strip()\<close> removes the white space 9-13, 28-32, 133 and 160
  from both ends. \<open>str_in needle hay\<close> is the substring test \<open>needle in hay\<close>.
\<close>

definition lower_char :: "char \<Rightarrow> char" where
  "lower_char c =
     (let n = (of_char c :: nat) in
      if (65 \<le> n \<and> n \<le> 90) \<or> (192 \<le> n \<and> n \<le> 214) \<or> (216 \<le> n \<and> n \<le> 222)
      then char_of (n + 32) else c)"

definition lower :: "string \<Rightarrow> string" where
  "lower s = map lower_char s"

definition is_space :: "char \<Rightarrow> bool" where
  "is_space c =
     (let n = (of_char c :: nat) in
      (9 \<le> n \<and> n \<le> 13) \<or> (28 \<le> n \<and> n \<le> 32) \<or> n = 133 \<or> n = 160)"

definition strip :: "string \<Rightarrow> string" where
  "strip s = rev (dropWhile is_space (rev (dropWhile is_space s)))"

fun starts_with :: "string \<Rightarrow> string \<Rightarrow> bool" where
  "starts_with [] hay = True"
| "starts_with (c # cs) [] = False"
| "starts_with (c # cs) (h # hs) = (c = h \<and> starts_with cs hs)"

fun str_in :: "string \<Rightarrow> string \<Rightarrow> bool" where
  "str_in needle [] = (needle = [])"
| "str_in needle (h # hs) = (starts_with needle (h # hs) \<or> str_in needle hs)"

section \<open>Effects: the platform, the trace, exceptions\<close>

text \<open>
  Every call that leaves the module is recorded in a trace, so that a claim about which
  calls were (not) issued can be stated. \<open>log_and_print(message, level)\<close> is not in the
  source file and has no influence on control flow; a call is recorded as \<open>Log level line\<close>
  with the line of module.py it stands on.
\<close>

datatype status = Success | Exists | PartialSuccess | Skipped | Failed

datatype idp_status = NotAttempted | GroupNotFound | MapSuccess | MapFailed | AlreadyMapped

text \<open>
  The entries of \<open>member_details\<close> (one constructor per f-string of
  \<open>migrate_team_members\<close>) and of \<open>users_status\<close>.
\<close>

datatype member_detail =
    DSkipped string
  | DSuccess string string
  | DFailedRateLimit string
  | DFailed string exn
  | DErrorRateLimit
  | DError exn

datatype user_status = USkipped | USuccess string | UFailed exn

record team_details =
  td_description :: string
  td_privacy :: string
  td_total_members :: nat
  td_members_migrated :: nat
  td_members_failed :: nat
  td_member_details :: "member_detail list"
  td_idp_group_name :: string
  td_idp_mapping_status :: idp_status

datatype event =
    Log level nat
  | GetUser client string
  | GetOrganization client string
  | OrgGetMembers client string
  | OrgCreateTeam client string string string string
  | OrgGetTeams client string
  | OrgGetTeamBySlug client string string
  | TeamGetMembers team
  | TeamGetMembership team string
  | TeamAddMembership team string string
  | TeamEdit team string nat
  | HttpRequest request
  | GetAllExternalGroups string
  | RateLimitWait client
  | Sleep nat
  | WriteSummary string string string "string list" "string list" "(string \<times> team_details) list"

record 'w state =
  world :: 'w
  trace :: "event list"

type_synonym ('w, 'a) prog = "'w state \<Rightarrow> (exn + 'a) \<times> 'w state"

definition retM :: "'a \<Rightarrow> ('w, 'a) prog" where
  "retM x = (\<lambda>s. (Inr x, s))"

definition raiseM :: "exn \<Rightarrow> ('w, 'a) prog" where
  "raiseM e = (\<lambda>s. (Inl e, s))"

definition bindM :: "('w, 'a) prog \<Rightarrow> ('a \<Rightarrow> ('w, 'b) prog) \<Rightarrow> ('w, 'b) prog" where
  "bindM m f = (\<lambda>s. case m s of (Inl e, s') \<Rightarrow> (Inl e, s') | (Inr x, s') \<Rightarrow> f x s')"

definition thenM :: "('w, unit) prog \<Rightarrow> ('w, 'b) prog \<Rightarrow> ('w, 'b) prog" where
  "thenM m k = bindM m (\<lambda>_. k)"

text \<open>\<open>try: m  except Exception as e: h e\<close>; a handler re-raises with \<open>raiseM e\<close>.\<close>

definition tryM :: "('w, 'a) prog \<Rightarrow> (exn \<Rightarrow> ('w, 'a) prog) \<Rightarrow> ('w, 'a) prog" where
  "tryM m h = (\<lambda>s. case m s of (Inl e, s') \<Rightarrow> h e s' | (Inr x, s') \<Rightarrow> (Inr x, s'))"

definition emit :: "event \<Rightarrow> ('w, unit) prog" where
  "emit ev = (\<lambda>s. (Inr (), s\<lparr>trace := trace s @ [ev]\<rparr>))"

definition log_and_print :: "level \<Rightarrow> nat \<Rightarrow> ('w, unit) prog" where
  "log_and_print lvl line = emit (Log lvl line)"

text \<open>A call to the platform: recorded, then answered by the world.\<close>

definition call :: "event \<Rightarrow> ('w \<Rightarrow> (exn + 'a) \<times> 'w) \<Rightarrow> ('w, 'a) prog" where
  "call ev f = (\<lambda>s. case f (world s) of (r, w') \<Rightarrow> (r, \<lparr>world = w', trace = trace s @ [ev]\<rparr>))"


text \<open>
  The platform. The first seven fields are the PyGithub methods the module calls
  (\<open>org.get_members()\<close> and the like take the organization by client and name, a team
  method takes the team object); \<open>api_request\<close> is \<open>make_github_request\<close>,
  \<open>api_get_all_external_groups\<close> and \<open>api_optimize\<close> are
  \<open>get_all_external_groups\<close> and \<open>optimize_parent_child_migration\<close>, none of which is
  in the source file. \<open>api_org_create_team\<close> may answer None so that the caller's test
  \<open>if target_team\<close> keeps both its branches.
\<close>

text \<open>An entry of \<open>team_cache\<close> in \<open>migrate_teams_optimized\<close> (lines 598-604).\<close>

record team_info =
  ti_name :: string
  ti_description :: string
  ti_privacy :: string
  ti_parent :: "string option"
  ti_team_obj :: team

record 'w api =
  api_get_user :: "client \<Rightarrow> string \<Rightarrow> 'w \<Rightarrow> (exn + string option) \<times> 'w"
  api_get_organization :: "client \<Rightarrow> string \<Rightarrow> 'w \<Rightarrow> (exn + unit) \<times> 'w"
  api_org_get_members :: "client \<Rightarrow> string \<Rightarrow> 'w \<Rightarrow> (exn + string list) \<times> 'w"
  api_org_create_team ::
    "client \<Rightarrow> string \<Rightarrow> string \<Rightarrow> string \<Rightarrow> string \<Rightarrow> 'w \<Rightarrow> (exn + team option) \<times> 'w"
  api_org_get_teams :: "client \<Rightarrow> string \<Rightarrow> 'w \<Rightarrow> (exn + team list) \<times> 'w"
  api_org_get_team_by_slug :: "client \<Rightarrow> string \<Rightarrow> string \<Rightarrow> 'w \<Rightarrow> (exn + team) \<times> 'w"
  api_team_get_members :: "team \<Rightarrow> 'w \<Rightarrow> (exn + string list) \<times> 'w"
  api_team_get_membership :: "team \<Rightarrow> string \<Rightarrow> 'w \<Rightarrow> (exn + string) \<times> 'w"
  api_team_add_membership :: "team \<Rightarrow> string \<Rightarrow> string \<Rightarrow> 'w \<Rightarrow> (exn + unit) \<times> 'w"
  api_team_edit :: "team \<Rightarrow> string \<Rightarrow> nat \<Rightarrow> 'w \<Rightarrow> (exn + unit) \<times> 'w"
  api_request :: "request \<Rightarrow> 'w \<Rightarrow> (exn + response) \<times> 'w"
  api_get_all_external_groups :: "string \<Rightarrow> 'w \<Rightarrow> (exn + ext_group list) \<times> 'w"
  api_optimize :: "(string \<times> string) list \<Rightarrow> (string \<times> team_info) list \<Rightarrow> string list"
  api_wait :: "client \<Rightarrow> 'w \<Rightarrow> 'w"

text \<open>
  Modelled from the spec: \<open>smart_rate_limit_handler\<close> is not in the source file.
  Spec 4.1 (Rate Limit Governor): it blocks until the quota is available again and never
  raises. The model records the call and lets the world move on (\<open>api_wait\<close>).
\<close>

definition smart_rate_limit_handler :: "'w api \<Rightarrow> client \<Rightarrow> ('w, unit) prog" where
  "smart_rate_limit_handler api gh = call (RateLimitWait gh) (\<lambda>w. (Inr (), api_wait api gh w))"

section \<open>validate_user and user_exists_in_org (lines 1-48)\<close>

definition validate_user :: "'w api \<Rightarrow> client \<Rightarrow> string \<Rightarrow> ('w, string option) prog" where
  "validate_user api gh_client username =
     tryM (call (GetUser gh_client (strip username)) (api_get_user api gh_client (strip username)))
       (\<lambda>e. if is_UnknownObjectException e
             then thenM (log_and_print LWarning 7) (retM None)
             else thenM (log_and_print LError 10) (retM None))"

text \<open>
  One pass through the body of the \<open>while\<close> loop (lines 29-46): it either returns from
  the function or falls through to the next test of the loop condition.
\<close>

datatype 'a loop_step = Return 'a | Continue

definition user_exists_attempt ::
  "'w api \<Rightarrow> client \<Rightarrow> string \<Rightarrow> string \<Rightarrow> ('w, bool loop_step) prog" where
  "user_exists_attempt api gh_client org_name validated_username =
     tryM
       (bindM (call (GetOrganization gh_client org_name) (api_get_organization api gh_client org_name))
         (\<lambda>org.
           tryM
             (bindM (call (OrgGetMembers gh_client org_name) (api_org_get_members api gh_client org_name))
               (\<lambda>members. retM (Return (validated_username \<in> set members))))
             (\<lambda>e. if is_GithubException e
                   then thenM (log_and_print LError 38) (retM (Return False))
                   else raiseM e)))
       (\<lambda>e. if is_RateLimitExceededException e
             then thenM (log_and_print LWarning 41)
                    (thenM (smart_rate_limit_handler api gh_client) (retM Continue))
             else thenM (log_and_print LError 45) (retM (Return False)))"

definition max_attempts :: nat where
  "max_attempts = 2"

text \<open>
  The loop \<open>while rate_limited and attempt < max_attempts\<close>. \<open>rate_limited\<close> is set to
  False only on the line before a \<open>return\<close>, so it is True at every test of the condition.
\<close>

function user_exists_while ::
  "'w api \<Rightarrow> client \<Rightarrow> string \<Rightarrow> string \<Rightarrow> nat \<Rightarrow> ('w, bool) prog" where
  "user_exists_while api gh_client org_name validated_username attempt s =
     (if attempt < max_attempts then
        (case user_exists_attempt api gh_client org_name validated_username s of
           (Inl e, s') \<Rightarrow> (Inl e, s')
         | (Inr (Return r), s') \<Rightarrow> (Inr r, s')
         | (Inr Continue, s') \<Rightarrow>
             user_exists_while api gh_client org_name validated_username (attempt + 1) s')
      else (Inr False, s))"
  by pat_completeness auto
termination
  by (relation "measure (\<lambda>(api, gh, org, v, attempt, s). max_attempts - attempt)") auto

definition user_exists_in_org :: "'w api \<Rightarrow> client \<Rightarrow> string \<Rightarrow> string \<Rightarrow> ('w, bool) prog" where
  "user_exists_in_org api gh_client org_name username =
     (if username = [] \<or> strip username = [] then retM False
      else bindM (validate_user api gh_client username)
        (\<lambda>validated_username.
           case validated_username of
             None \<Rightarrow> retM False
           | Some v \<Rightarrow>
               if v = [] then retM False
               else user_exists_while api gh_client org_name v 0))"


section \<open>Reading the trace\<close>

fun is_GetOrganization :: "event \<Rightarrow> bool" where
  "is_GetOrganization (GetOrganization _ _) = True"
| "is_GetOrganization _ = False"

fun is_RateLimitWait :: "event \<Rightarrow> bool" where
  "is_RateLimitWait (RateLimitWait _) = True"
| "is_RateLimitWait _ = False"

fun is_TeamAddMembership :: "event \<Rightarrow> bool" where
  "is_TeamAddMembership (TeamAddMembership _ _ _) = True"
| "is_TeamAddMembership _ = False"

text \<open>A REST call that changes the platform: a PATCH or a DELETE.\<close>

fun is_mutating :: "event \<Rightarrow> bool" where
  "is_mutating (HttpRequest (Request PATCH _ _)) = True"
| "is_mutating (HttpRequest (Request DELETE _ _)) = True"
| "is_mutating _ = False"

text \<open>The fetches of an organization and the rate-limit waits, in the order they happened.\<close>

definition fetches_and_waits :: "event list \<Rightarrow> event list" where
  "fetches_and_waits tr = filter (\<lambda>ev. is_GetOrganization ev \<or> is_RateLimitWait ev) tr"

fun is_DSuccess :: "member_detail \<Rightarrow> bool" where
  "is_DSuccess (DSuccess _ _) = True"
| "is_DSuccess _ = False"

text \<open>The events a run has added to the trace it started with.\<close>

definition new_events :: "'w state \<Rightarrow> 'w state \<Rightarrow> event list" where
  "new_events s s' = drop (length (trace s)) (trace s')"


section \<open>create_gh_team (lines 50-98)\<close>

text \<open>
  A Python dict is an association list: \<open>d.get(k)\<close> is \<open>map_of d k\<close>, and \<open>d[k] = v\<close> is
  \<open>AList.update k v d\<close>, which overwrites in place or appends a new key, as a dict does.
\<close>

definition create_gh_team ::
  "'w api \<Rightarrow> client \<Rightarrow> string \<Rightarrow> string \<Rightarrow> string \<Rightarrow> string \<Rightarrow> (string \<times> team) list option
     \<Rightarrow> ('w, team option \<times> string) prog" where
  "create_gh_team api gh_target org_name team_name description privacy target_teams_cache =
     tryM
       (bindM (call (GetOrganization gh_target org_name) (api_get_organization api gh_target org_name))
         (\<lambda>org.
           let cache = (case target_teams_cache of None \<Rightarrow> [] | Some c \<Rightarrow> c) in
           case map_of cache (lower team_name) of
             Some team \<Rightarrow> thenM (log_and_print LWarning 70) (retM (Some team, ''exist''))
           | None \<Rightarrow>
               tryM
                 (bindM
                   (call (OrgCreateTeam gh_target org_name team_name description privacy)
                      (api_org_create_team api gh_target org_name team_name description privacy))
                   (\<lambda>team. thenM (log_and_print LSuccess 81) (retM (team, ''new''))))
                 (\<lambda>e. if is_GithubException e
                       then thenM
                              (if exn_status e = Some 422 then log_and_print LError 86
                               else if exn_status e = Some 403 then log_and_print LError 88
                               else log_and_print LError 90)
                              (raiseM e)
                       else raiseM e)))
       (\<lambda>e. if is_RateLimitExceededException e
             then thenM (log_and_print LError 94) (raiseM e)
             else thenM (log_and_print LError 97) (raiseM e))"

section \<open>migrate_team_members (lines 139-244)\<close>

record member_acc =
  users_status :: "(string \<times> user_status) list"
  member_details :: "member_detail list"
  members_migrated :: nat
  members_failed :: nat

record member_results =
  mr_success :: bool
  mr_total_members :: nat
  mr_members_migrated :: nat
  mr_members_failed :: nat
  mr_member_details :: "member_detail list"

definition get_role :: "'w api \<Rightarrow> team \<Rightarrow> string \<Rightarrow> ('w, string) prog" where
  "get_role api source_team login =
     bindM (call (TeamGetMembership source_team login) (api_team_get_membership api source_team login))
       (\<lambda>r. retM (if r = ''maintainer'' then ''maintainer'' else ''member''))"

definition add_membership :: "'w api \<Rightarrow> team \<Rightarrow> string \<Rightarrow> string \<Rightarrow> ('w, unit) prog" where
  "add_membership api target_team login role =
     call (TeamAddMembership target_team login role) (api_team_add_membership api target_team login role)"

text \<open>Lines 173-180: the member's role in the source team, tried again once on a rate limit.\<close>

definition role_with_retry :: "'w api \<Rightarrow> team \<Rightarrow> string \<Rightarrow> ('w, string) prog" where
  "role_with_retry api source_team login =
     tryM (thenM (log_and_print LInfo 175) (get_role api source_team login))
       (\<lambda>e. if is_RateLimitExceededException e
             then thenM (log_and_print LWarning 178) (get_role api source_team login)
             else raiseM e)"

text \<open>
  Lines 184-190: the member is added, and once more after a wait on a rate limit. On line
  188 the rate-limit handler is called with an attribute of the target team's requester;
  the model passes the team's client.
\<close>

definition add_with_retry :: "'w api \<Rightarrow> team \<Rightarrow> string \<Rightarrow> string \<Rightarrow> ('w, unit) prog" where
  "add_with_retry api target_team login role =
     tryM (add_membership api target_team login role)
       (\<lambda>e. if is_RateLimitExceededException e
             then thenM (log_and_print LWarning 187)
                    (thenM (smart_rate_limit_handler api (t_client target_team))
                       (add_membership api target_team login role))
             else raiseM e)"

text \<open>
  The body of the \<open>for\<close> loop over the source members (lines 159-215) for one member. A
  member object is identified with its login. The updates of the counters stand after the
  last call that can raise, so the two handlers start from the values the iteration began
  with.
\<close>

definition migrate_member ::
  "'w api \<Rightarrow> team \<Rightarrow> team \<Rightarrow> client \<Rightarrow> string \<Rightarrow> string \<Rightarrow> member_acc \<Rightarrow> ('w, member_acc) prog" where
  "migrate_member api source_team target_team gh_target target_org login acc =
     thenM (log_and_print LInfo 159)
       (tryM
         (bindM (user_exists_in_org api gh_target target_org login)
           (\<lambda>found.
             if \<not> found then
               retM (acc\<lparr>users_status := AList.update login USkipped (users_status acc),
                         members_failed := members_failed acc + 1,
                         member_details := member_details acc @ [DSkipped login]\<rparr>)
             else
               bindM (role_with_retry api source_team login)
                 (\<lambda>role.
                   thenM (log_and_print LInfo 183)
                     (thenM (add_with_retry api target_team login role)
                       (thenM (log_and_print LSuccess 198)
                         (retM (acc\<lparr>users_status := AList.update login (USuccess role) (users_status acc),
                                   members_migrated := members_migrated acc + 1,
                                   member_details := member_details acc @ [DSuccess login role]\<rparr>)))))))
         (\<lambda>e. if is_RateLimitExceededException e
               then thenM (log_and_print LError 201)
                      (retM (acc\<lparr>users_status := AList.update login (UFailed e) (users_status acc),
                                members_failed := members_failed acc + 1,
                                member_details := member_details acc @ [DFailedRateLimit login]\<rparr>))
               else thenM (log_and_print LError 215)
                      (retM (acc\<lparr>users_status := AList.update login (UFailed e) (users_status acc),
                                members_failed := members_failed acc + 1,
                                member_details := member_details acc @ [DFailed login e]\<rparr>))))"

fun migrate_members_loop ::
  "'w api \<Rightarrow> team \<Rightarrow> team \<Rightarrow> client \<Rightarrow> string \<Rightarrow> string list \<Rightarrow> member_acc \<Rightarrow> ('w, member_acc) prog" where
  "migrate_members_loop api source_team target_team gh_target target_org [] acc = retM acc"
| "migrate_members_loop api source_team target_team gh_target target_org (login # rest) acc =
     bindM (migrate_member api source_team target_team gh_target target_org login acc)
       (\<lambda>acc'. migrate_members_loop api source_team target_team gh_target target_org rest acc')"

definition list_source_members :: "'w api \<Rightarrow> team \<Rightarrow> ('w, string list) prog" where
  "list_source_members api source_team =
     tryM (call (TeamGetMembers source_team) (api_team_get_members api source_team))
       (\<lambda>e. if is_RateLimitExceededException e
             then thenM (log_and_print LWarning 152)
                    (call (TeamGetMembers source_team) (api_team_get_members api source_team))
             else raiseM e)"

text \<open>
  The function returns the result dict; the model returns the local \<open>users_status\<close> next
  to it, so that the recorded per-member status can be stated. Nothing in the loop raises
  past the per-member handlers, so the two outer handlers (lines 225-244) are reached from
  the listing of the source members only, with the counters at their initial values.
\<close>

definition migrate_team_members ::
  "'w api \<Rightarrow> team \<Rightarrow> team \<Rightarrow> client \<Rightarrow> string
     \<Rightarrow> ('w, (string \<times> user_status) list \<times> member_results) prog" where
  "migrate_team_members api source_team target_team gh_target target_org =
     (let acc0 = \<lparr>users_status = [], member_details = [], members_migrated = 0, members_failed = 0\<rparr> in
      tryM
        (bindM (list_source_members api source_team)
          (\<lambda>source_members.
            thenM (log_and_print LInfo 156)
              (bindM (migrate_members_loop api source_team target_team gh_target target_org
                        source_members acc0)
                (\<lambda>acc. retM (users_status acc,
                   \<lparr>mr_success = (members_failed acc = 0),
                    mr_total_members = length source_members,
                    mr_members_migrated = members_migrated acc,
                    mr_members_failed = members_failed acc,
                    mr_member_details = member_details acc\<rparr>)))))
        (\<lambda>e. if is_RateLimitExceededException e
              then thenM (log_and_print LError 227)
                     (retM (users_status acc0,
                        \<lparr>mr_success = False, mr_total_members = 0,
                         mr_members_migrated = members_migrated acc0,
                         mr_members_failed = members_failed acc0,
                         mr_member_details = member_details acc0 @ [DErrorRateLimit]\<rparr>))
              else thenM (log_and_print LError 237)
                     (retM (users_status acc0,
                        \<lparr>mr_success = False, mr_total_members = 0,
                         mr_members_migrated = members_migrated acc0,
                         mr_members_failed = members_failed acc0,
                         mr_member_details = member_details acc0 @ [DError e]\<rparr>))))"

section \<open>The REST functions (lines 355-576)\<close>

text \<open>
  \<open>response.raise_for_status()\<close> of the requests library raises an HTTPError, a
  \<open>RequestException\<close>, for a status from 400 to 599 and does nothing otherwise.
\<close>

definition raise_for_status :: "response \<Rightarrow> ('w, unit) prog" where
  "raise_for_status response =
     (if 400 \<le> status_code response \<and> status_code response < 600
      then raiseM RequestException else retM ())"

definition make_github_request :: "'w api \<Rightarrow> http_method \<Rightarrow> endpoint \<Rightarrow> nat option option \<Rightarrow> ('w, response) prog" where
  "make_github_request api method url json_data =
     call (HttpRequest (Request method url json_data)) (api_request api (Request method url json_data))"

definition liftM :: "exn + 'a \<Rightarrow> ('w, 'a) prog" where
  "liftM r = (\<lambda>s. (r, s))"

text \<open>\<open>check_team_external_group_mapping\<close> (lines 515-576).\<close>

definition check_team_external_group_mapping ::
  "'w api \<Rightarrow> string \<Rightarrow> string \<Rightarrow> string option \<Rightarrow> ('w, bool \<times> ext_group option) prog" where
  "check_team_external_group_mapping api org_name team_slug expected_group_name =
     tryM
       (thenM (log_and_print LInfo 538)
         (bindM (make_github_request api GET (TeamExternalGroups org_name team_slug) None)
           (\<lambda>response.
             if status_code response = 200 then
               bindM (liftM (json response))
                 (\<lambda>mapping_data.
                   case mapping_data of
                     Some (group_data # _) \<Rightarrow>
                       thenM (log_and_print LWarning 550)
                         (if expected_group_name \<noteq> None \<and> expected_group_name \<noteq> Some [] then
                            (case g_name group_data of
                               None \<Rightarrow> raiseM OtherException
                             | Some group_name \<Rightarrow>
                                 if lower group_name = lower (the expected_group_name)
                                    \<or> str_in (lower (the expected_group_name)) (lower group_name)
                                 then thenM (log_and_print LSuccess 557) (retM (True, Some group_data))
                                 else thenM (log_and_print LInfo 560) (retM (False, Some group_data)))
                          else retM (True, Some group_data))
                   | _ \<Rightarrow> thenM (log_and_print LInfo 566) (retM (False, None)))
             else if status_code response = 404 then
               thenM (log_and_print LInfo 569) (retM (False, None))
             else thenM (log_and_print LError 572) (retM (False, None)))))
       (\<lambda>e. thenM (log_and_print LError 575) (retM (False, None)))"

text \<open>
  \<open>[xs[i:i + n] for i in range(0, len(xs), n)]\<close>, the batches of lines 379, 711 and 891.
\<close>

function chunks :: "nat \<Rightarrow> 'a list \<Rightarrow> 'a list list" where
  "chunks n xs = (if n = 0 \<or> xs = [] then [] else take n xs # chunks n (drop n xs))"
  by pat_completeness auto
termination
  by (relation "measure (\<lambda>(n, xs). length xs)") auto

text \<open>\<open>remove_users_from_team\<close> (lines 355-424); the entries of its \<open>details\<close> list.\<close>

datatype removal_detail =
    RRemoved string
  | RPermissionDenied string
  | RWillRetry string nat
  | RFailedStatus string nat
  | RFailedExn string exn

record removal_acc =
  success_count :: nat
  failed_count :: nat
  details :: "removal_detail list"

definition remove_user :: "'w api \<Rightarrow> string \<Rightarrow> string \<Rightarrow> string \<Rightarrow> removal_acc \<Rightarrow> ('w, removal_acc) prog" where
  "remove_user api org_name team_slug username0 acc =
     (let username = strip username0 in
      if username = [] then retM acc
      else
        tryM
          (thenM (log_and_print LInfo 390)
            (bindM (make_github_request api DELETE (TeamMemberships org_name team_slug username) None)
              (\<lambda>response.
                if status_code response = 204 \<or> status_code response = 404 then
                  thenM (log_and_print LSuccess 396)
                    (retM (acc\<lparr>success_count := success_count acc + 1,
                              details := details acc @ [RRemoved username]\<rparr>))
                else if status_code response = 403 then
                  thenM (log_and_print LError 401)
                    (retM (acc\<lparr>failed_count := failed_count acc + 1,
                              details := details acc @ [RPermissionDenied username]\<rparr>))
                else if status_code response \<ge> 500 then
                  thenM (log_and_print LWarning 405)
                    (thenM (raise_for_status response)
                      (retM (acc\<lparr>details := details acc @ [RWillRetry username (status_code response)]\<rparr>)))
                else
                  thenM (log_and_print LError 410)
                    (retM (acc\<lparr>failed_count := failed_count acc + 1,
                              details := details acc @ [RFailedStatus username (status_code response)]\<rparr>)))))
          (\<lambda>e. if is_RequestException e
                then thenM (log_and_print LWarning 413) (raiseM e)
                else thenM (log_and_print LError 418)
                       (retM (acc\<lparr>failed_count := failed_count acc + 1,
                                 details := details acc @ [RFailedExn username e]\<rparr>))))"

fun remove_batch :: "'w api \<Rightarrow> string \<Rightarrow> string \<Rightarrow> string list \<Rightarrow> removal_acc \<Rightarrow> ('w, removal_acc) prog" where
  "remove_batch api org_name team_slug [] acc = retM acc"
| "remove_batch api org_name team_slug (username # rest) acc =
     bindM (remove_user api org_name team_slug username acc)
       (\<lambda>acc'. remove_batch api org_name team_slug rest acc')"

fun remove_batches ::
  "'w api \<Rightarrow> string \<Rightarrow> string \<Rightarrow> string list list \<Rightarrow> string list list \<Rightarrow> removal_acc
     \<Rightarrow> ('w, removal_acc) prog" where
  "remove_batches api org_name team_slug user_batches [] acc = retM acc"
| "remove_batches api org_name team_slug user_batches (batch # rest) acc =
     bindM (remove_batch api org_name team_slug batch acc)
       (\<lambda>acc'. thenM
          (if length user_batches > 1 \<and> batch \<noteq> last user_batches then emit (Sleep 1) else retM ())
          (remove_batches api org_name team_slug user_batches rest acc'))"

definition remove_users_from_team ::
  "'w api \<Rightarrow> string \<Rightarrow> string \<Rightarrow> string list \<Rightarrow> ('w, nat \<times> nat \<times> removal_detail list) prog" where
  "remove_users_from_team api org_name team_slug users =
     (let batch_size = 10; user_batches = chunks batch_size users in
      bindM (remove_batches api org_name team_slug user_batches user_batches
               \<lparr>success_count = 0, failed_count = 0, details = []\<rparr>)
        (\<lambda>acc. retM (success_count acc, failed_count acc, details acc)))"

text \<open>
  \<open>map_external_group_to_team\<close> (lines 426-513) in three parts: the search for the group
  (line 472), the resolution of the group id (lines 451-480), which either ends the function
  with False or goes on with a group id, and the patch (lines 482-507).
\<close>

fun find_matching_group :: "string \<Rightarrow> ext_group list \<Rightarrow> exn + ext_group option" where
  "find_matching_group team_slug [] = Inr None"
| "find_matching_group team_slug (g # gs) =
     (case g_name g of
        None \<Rightarrow> Inl OtherException
      | Some group_name \<Rightarrow>
          if lower group_name = lower team_slug then Inr (Some g)
          else find_matching_group team_slug gs)"

datatype resolution = ReturnFalse | GroupId "nat option"

definition resolve_group_id ::
  "'w api \<Rightarrow> string \<Rightarrow> string \<Rightarrow> nat option \<Rightarrow> (string \<times> ext_group) list option
     \<Rightarrow> ('w, resolution) prog" where
  "resolve_group_id api org_name team_slug group_id idp_group_cache =
     (case group_id of
        Some gid \<Rightarrow> retM (GroupId (Some gid))
      | None \<Rightarrow>
          let cache = (case idp_group_cache of None \<Rightarrow> [] | Some c \<Rightarrow> c) in
          (case map_of cache (lower team_slug) of
             Some group_data \<Rightarrow> thenM (log_and_print LInfo 456) (retM (GroupId (g_id group_data)))
           | None \<Rightarrow>
               thenM (log_and_print LInfo 458)
                 (bindM (make_github_request api GET (ExternalGroups org_name team_slug) None)
                   (\<lambda>response.
                     if status_code response \<noteq> 200 then
                       thenM (log_and_print LError 463) (retM ReturnFalse)
                     else
                       bindM (liftM (json response))
                         (\<lambda>doc.
                           let groups = (case doc of None \<Rightarrow> [] | Some gs \<Rightarrow> gs) in
                           if groups = [] then thenM (log_and_print LWarning 468) (retM ReturnFalse)
                           else
                             bindM (liftM (find_matching_group team_slug groups))
                               (\<lambda>matching_group.
                                 case matching_group of
                                   None \<Rightarrow> thenM (log_and_print LWarning 475) (retM ReturnFalse)
                                 | Some g \<Rightarrow>
                                     thenM (log_and_print LSuccess 480) (retM (GroupId (g_id g)))))))))"

definition patch_external_group ::
  "'w api \<Rightarrow> string \<Rightarrow> string \<Rightarrow> nat option \<Rightarrow> ('w, bool) prog" where
  "patch_external_group api org_name team_slug group_id =
     thenM (log_and_print LInfo 488)
       (bindM (make_github_request api PATCH (TeamExternalGroups org_name team_slug) (Some group_id))
         (\<lambda>response.
           if status_code response = 200 \<or> status_code response = 201 then
             thenM (log_and_print LSuccess 492) (retM True)
           else if status_code response = 404 then
             thenM (log_and_print LError 495) (retM False)
           else if status_code response = 422 then
             thenM (log_and_print LError 498) (retM False)
           else if status_code response = 403 then
             thenM (log_and_print LError 501) (retM False)
           else
             thenM (log_and_print LError 504)
               (thenM (raise_for_status response) (retM False))))"

definition map_external_group_to_team ::
  "'w api \<Rightarrow> string \<Rightarrow> string \<Rightarrow> nat option \<Rightarrow> (string \<times> ext_group) list option
     \<Rightarrow> ('w, bool) prog" where
  "map_external_group_to_team api org_name team_slug group_id idp_group_cache =
     tryM
       (bindM (check_team_external_group_mapping api org_name team_slug (Some team_slug))
         (\<lambda>(is_mapped, existing_mapping).
           if is_mapped then thenM (log_and_print LInfo 447) (retM True)
           else
             bindM (resolve_group_id api org_name team_slug group_id idp_group_cache)
               (\<lambda>r. case r of
                  ReturnFalse \<Rightarrow> retM False
                | GroupId gid \<Rightarrow> patch_external_group api org_name team_slug gid)))
       (\<lambda>e. if is_RequestException e
             then thenM (log_and_print LError 509) (raiseM e)
             else thenM (log_and_print LError 512) (raiseM e))"

section \<open>migrate_teams_optimized (lines 581-934): the caches\<close>

text \<open>
  A step that either goes on with a value or ends the current invocation with
  \<open>return migrate_teams_optimized(...)\<close>; \<open>Restart\<close> carries what the new invocation needs.
\<close>

datatype ('r, 'a) flow = Restart 'r | Go 'a

definition the_teams :: "string list option \<Rightarrow> string list" where
  "the_teams teams_to_migrate = (case teams_to_migrate of None \<Rightarrow> [] | Some ts \<Rightarrow> ts)"

definition cache_entry :: "team \<Rightarrow> team_info" where
  "cache_entry team =
     \<lparr>ti_name = t_name team,
      ti_description = (case t_description team of None \<Rightarrow> [] | Some d \<Rightarrow> d),
      ti_privacy = t_privacy team,
      ti_parent = t_parent team,
      ti_team_obj = team\<rparr>"

definition get_team_by_slug :: "'w api \<Rightarrow> client \<Rightarrow> string \<Rightarrow> string \<Rightarrow> ('w, team) prog" where
  "get_team_by_slug api gh org slug =
     call (OrgGetTeamBySlug gh org slug) (api_org_get_team_by_slug api gh org slug)"

definition get_teams :: "'w api \<Rightarrow> client \<Rightarrow> string \<Rightarrow> ('w, team list) prog" where
  "get_teams api gh org = call (OrgGetTeams gh org) (api_org_get_teams api gh org)"

text \<open>Lines 595-620: the loop over the requested team names.\<close>

fun fetch_named_teams ::
  "'w api \<Rightarrow> client \<Rightarrow> string \<Rightarrow> string list \<Rightarrow> (string \<times> team_info) list
     \<Rightarrow> ('w, (string \<times> team_info) list) prog" where
  "fetch_named_teams api gh_source source_org [] team_cache = retM team_cache"
| "fetch_named_teams api gh_source source_org (team_name # rest) team_cache =
     bindM
       (tryM
         (bindM (get_team_by_slug api gh_source source_org (strip team_name))
           (\<lambda>team. thenM (log_and_print LInfo 605)
              (retM (AList.update (t_slug team) (cache_entry team) team_cache))))
         (\<lambda>e. if is_RateLimitExceededException e
               then thenM (log_and_print LError 607)
                      (thenM (smart_rate_limit_handler api gh_source)
                        (bindM (get_team_by_slug api gh_source source_org (strip team_name))
                          (\<lambda>team. retM (AList.update (t_slug team) (cache_entry team) team_cache))))
               else thenM (log_and_print LError 619) (retM team_cache)))
       (\<lambda>team_cache'. fetch_named_teams api gh_source source_org rest team_cache')"

text \<open>Lines 593-646.\<close>

definition fetch_source_teams ::
  "'w api \<Rightarrow> client \<Rightarrow> string \<Rightarrow> string list option
     \<Rightarrow> ('w, (unit, (string \<times> team_info) list) flow) prog" where
  "fetch_source_teams api gh_source source_org teams_to_migrate =
     (if the_teams teams_to_migrate \<noteq> [] then
        thenM (log_and_print LInfo 594)
          (bindM (fetch_named_teams api gh_source source_org (the_teams teams_to_migrate) [])
            (\<lambda>team_cache. thenM (log_and_print LInfo 622) (retM (Go team_cache))))
      else
        thenM (log_and_print LInfo 625)
          (tryM
            (bindM (get_teams api gh_source source_org)
              (\<lambda>all_source_teams.
                thenM (log_and_print LInfo 630)
                  (retM (Go (foldl (\<lambda>c team. AList.update (t_slug team) (cache_entry team) c)
                               [] all_source_teams)))))
            (\<lambda>e. if is_RateLimitExceededException e
                  then thenM (log_and_print LError 642)
                         (thenM (smart_rate_limit_handler api gh_source) (retM (Restart ())))
                  else raiseM e)))"

text \<open>Lines 657-670.\<close>

definition fetch_target_teams ::
  "'w api \<Rightarrow> client \<Rightarrow> string \<Rightarrow> ('w, (unit, (string \<times> team) list) flow) prog" where
  "fetch_target_teams api gh_target target_org =
     tryM
       (bindM (get_teams api gh_target target_org)
         (\<lambda>all_target_teams.
           thenM (log_and_print LInfo 659)
             (retM (Go (foldl (\<lambda>c team. AList.update (lower (t_slug team)) team
                                   (AList.update (lower (t_name team)) team c))
                          [] all_target_teams)))))
       (\<lambda>e. if is_RateLimitExceededException e
             then thenM (log_and_print LError 666)
                    (thenM (smart_rate_limit_handler api gh_target) (retM (Restart ())))
             else raiseM e)"

text \<open>
  Lines 680-688: the loop that fills \<open>idp_group_cache\<close>. A group whose name is null makes
  \<open>.lower()\<close> raise; the entries cached before it stay in the cache.
\<close>

fun cache_idp_groups ::
  "ext_group list \<Rightarrow> (string \<times> ext_group) list \<Rightarrow> exn option \<times> (string \<times> ext_group) list" where
  "cache_idp_groups [] c = (None, c)"
| "cache_idp_groups (g # gs) c =
     (case g_name g of
        None \<Rightarrow> (Some OtherException, c)
      | Some n \<Rightarrow>
          let group_name = lower n;
              c1 = AList.update group_name g c;
              normalized_name =
                map (\<lambda>ch. if ch = CHR ''-'' \<or> ch = CHR '' '' then CHR ''_'' else ch) group_name;
              c2 = (if normalized_name \<noteq> group_name then AList.update normalized_name g c1 else c1)
          in cache_idp_groups gs c2)"

text \<open>Lines 675-692.\<close>

definition prefetch_idp_groups :: "'w api \<Rightarrow> string \<Rightarrow> ('w, (string \<times> ext_group) list) prog" where
  "prefetch_idp_groups api target_org =
     thenM (log_and_print LInfo 676)
       (bindM
         (tryM
           (bindM (call (GetAllExternalGroups target_org) (api_get_all_external_groups api target_org))
             (\<lambda>idp_groups. retM (cache_idp_groups idp_groups [])))
           (\<lambda>e. retM (Some e, [])))
         (\<lambda>(err, idp_group_cache).
            thenM (if err = None then log_and_print LInfo 690 else log_and_print LError 692)
              (retM idp_group_cache)))"

text \<open>Lines 697-699.\<close>

definition parent_child_pairs :: "(string \<times> team_info) list \<Rightarrow> (string \<times> string) list" where
  "parent_child_pairs team_cache =
     concat (map (\<lambda>(team_slug, team_info).
                    case ti_parent team_info of
                      None \<Rightarrow> []
                    | Some p \<Rightarrow> if p = [] then [] else [(team_slug, p)])
               team_cache)"

section \<open>migrate_teams_optimized: one team (lines 717-879)\<close>

text \<open>The three dicts the batch loop mutates.\<close>

record locals =
  migration_status :: "(string \<times> status) list"
  migration_details :: "(string \<times> team_details) list"
  target_teams_cache :: "(string \<times> team) list"

text \<open>Lines 782-830: the IDP mapping of one team; the value is the new \<open>idp_mapping_status\<close>.\<close>

definition idp_mapping_step ::
  "'w api \<Rightarrow> client \<Rightarrow> string \<Rightarrow> (string \<times> ext_group) list \<Rightarrow> nat \<Rightarrow> string \<Rightarrow> team
     \<Rightarrow> ('w, idp_status) prog" where
  "idp_mapping_step api gh_target target_org idp_group_cache index team_name target_team =
     tryM
       (thenM (if index mod 10 = 0 then smart_rate_limit_handler api gh_target else retM ())
         (bindM (check_team_external_group_mapping api target_org team_name (Some team_name))
           (\<lambda>(is_mapped, _).
             if \<not> is_mapped then
               bindM
                 (tryM
                   (thenM (log_and_print LInfo 794)
                     (call (TeamGetMembers target_team) (api_team_get_members api target_team)))
                   (\<lambda>e. if is_RateLimitExceededException e
                         then thenM (log_and_print LWarning 798)
                                (thenM (smart_rate_limit_handler api gh_target)
                                  (call (TeamGetMembers target_team) (api_team_get_members api target_team)))
                         else raiseM e))
                 (\<lambda>target_team_members.
                   thenM
                     (if target_team_members \<noteq> [] then
                        thenM (log_and_print LInfo 805)
                          (bindM (remove_users_from_team api target_org team_name target_team_members)
                            (\<lambda>_. log_and_print LInfo 809))
                      else retM ())
                     (let group_id = (case map_of idp_group_cache (lower team_name) of
                                        None \<Rightarrow> None
                                      | Some group_data \<Rightarrow> g_id group_data)
                      in bindM (map_external_group_to_team api target_org team_name group_id
                                  (Some idp_group_cache))
                           (\<lambda>ok. if ok then thenM (log_and_print LSuccess 819) (retM MapSuccess)
                                  else thenM (log_and_print LError 822) (retM MapFailed))))
             else thenM (log_and_print LSuccess 825) (retM AlreadyMapped))))
       (\<lambda>e. thenM (log_and_print LError 829) (retM MapFailed))"

datatype team_result = RateLimited | Processed locals

text \<open>
  Lines 717-879 for one team of a batch. Inside the \<open>try\<close> only \<open>create_gh_team\<close> and,
  in the \<open>elif\<close> branch, \<open>map_external_group_to_team\<close> can raise. At both points
  \<open>team_details\<close> and the target cache are as at the start of the iteration, and the
  status \<open>exists\<close> written before the second is overwritten by the handler's \<open>failed\<close>
  under the same key, so the handler of line 876 starts from the dicts the iteration
  began with.
\<close>

definition migrate_one_team ::
  "'w api \<Rightarrow> client \<Rightarrow> string \<Rightarrow> bool \<Rightarrow> bool \<Rightarrow> (string \<times> team_info) list
     \<Rightarrow> (string \<times> ext_group) list \<Rightarrow> nat \<Rightarrow> string \<Rightarrow> locals \<Rightarrow> ('w, team_result) prog" where
  "migrate_one_team api gh_target target_org migrate_users map_idp_groups team_cache idp_group_cache
       index team_name l =
     thenM (log_and_print LInfo 717)
       (case map_of team_cache (lower team_name) of
          None \<Rightarrow>
            thenM (log_and_print LError 722)
              (retM (Processed (l\<lparr>migration_status := AList.update team_name Failed (migration_status l)\<rparr>)))
        | Some team_info \<Rightarrow>
            let team_details =
                  \<lparr>td_description = ti_description team_info, td_privacy = ti_privacy team_info,
                   td_total_members = 0, td_members_migrated = 0, td_members_failed = 0,
                   td_member_details = [], td_idp_group_name = team_name,
                   td_idp_mapping_status = NotAttempted\<rparr>;
                idp_group_exists = (map_idp_groups \<and> map_of idp_group_cache (lower team_name) \<noteq> None)
            in
            tryM
              (if map_idp_groups \<and> \<not> idp_group_exists then
                 thenM (log_and_print LWarning 752)
                   (retM (Processed (l\<lparr>
                      migration_status := AList.update team_name Skipped (migration_status l),
                      migration_details := AList.update team_name
                        (team_details\<lparr>td_idp_mapping_status := GroupNotFound\<rparr>) (migration_details l)\<rparr>)))
               else
                 let source_team = ti_team_obj team_info in
                 bindM (create_gh_team api gh_target target_org team_name (ti_description team_info)
                          (ti_privacy team_info) (Some (target_teams_cache l)))
                   (\<lambda>(target_team, new_or_exist).
                     case target_team of
                       Some tt \<Rightarrow>
                         let cache' = (if new_or_exist = ''new''
                                       then AList.update (lower (t_slug tt)) tt
                                              (AList.update (lower team_name) tt (target_teams_cache l))
                                       else target_teams_cache l)
                         in
                         bindM (if map_idp_groups \<and> idp_group_exists
                                then idp_mapping_step api gh_target target_org idp_group_cache index
                                       team_name tt
                                else retM NotAttempted)
                           (\<lambda>idp.
                             if migrate_users \<and> \<not> map_idp_groups then
                               thenM (if index mod 5 = 0 then smart_rate_limit_handler api gh_target
                                      else retM ())
                                 (bindM (migrate_team_members api source_team tt gh_target target_org)
                                   (\<lambda>(_, member_results).
                                     retM (Processed
                                       \<lparr>migration_status = AList.update team_name
                                          (if mr_success member_results then Success else PartialSuccess)
                                          (migration_status l),
                                        migration_details = AList.update team_name
                                          (team_details\<lparr>
                                             td_idp_mapping_status := idp,
                                             td_total_members := mr_total_members member_results,
                                             td_members_migrated := mr_members_migrated member_results,
                                             td_members_failed := mr_members_failed member_results,
                                             td_member_details := mr_member_details member_results\<rparr>)
                                          (migration_details l),
                                        target_teams_cache = cache'\<rparr>)))
                             else
                               retM (Processed
                                 \<lparr>migration_status = AList.update team_name Success (migration_status l),
                                  migration_details = AList.update team_name
                                    (team_details\<lparr>td_idp_mapping_status := idp\<rparr>) (migration_details l),
                                  target_teams_cache = cache'\<rparr>))
                     | None \<Rightarrow>
                         if new_or_exist = ''exist'' then
                           thenM (log_and_print LInfo 853)
                             (bindM (map_external_group_to_team api target_org team_name None None)
                               (\<lambda>ok.
                                 thenM (if ok then log_and_print LSuccess 856
                                        else log_and_print LError 859)
                                   (retM (Processed (l\<lparr>
                                      migration_status := AList.update team_name Exists (migration_status l),
                                      migration_details := AList.update team_name
                                        (team_details\<lparr>td_idp_mapping_status :=
                                           (if ok then MapSuccess else MapFailed)\<rparr>)
                                        (migration_details l)\<rparr>)))))
                         else
                           retM (Processed (l\<lparr>
                             migration_status := AList.update team_name Failed (migration_status l),
                             migration_details := AList.update team_name team_details
                               (migration_details l)\<rparr>))))
              (\<lambda>e. if is_RateLimitExceededException e
                    then thenM (log_and_print LError 867)
                           (thenM (smart_rate_limit_handler api gh_target) (retM RateLimited))
                    else thenM (log_and_print LError 877)
                           (retM (Processed (l\<lparr>
                              migration_status := AList.update team_name Failed (migration_status l),
                              migration_details := AList.update team_name team_details
                                (migration_details l)\<rparr>)))))"

section \<open>migrate_teams_optimized: the batches, the parent links, the summary\<close>

datatype batch_result = BatchRateLimited string | BatchDone locals

text \<open>Lines 716-879: the teams of one batch, \<open>index\<close> counting from 1.\<close>

fun migrate_batch ::
  "'w api \<Rightarrow> client \<Rightarrow> string \<Rightarrow> bool \<Rightarrow> bool \<Rightarrow> (string \<times> team_info) list
     \<Rightarrow> (string \<times> ext_group) list \<Rightarrow> nat \<Rightarrow> string list \<Rightarrow> locals \<Rightarrow> ('w, batch_result) prog" where
  "migrate_batch api gh_target target_org migrate_users map_idp_groups team_cache idp_group_cache
       index [] l = retM (BatchDone l)"
| "migrate_batch api gh_target target_org migrate_users map_idp_groups team_cache idp_group_cache
       index (team_name # rest) l =
     bindM (migrate_one_team api gh_target target_org migrate_users map_idp_groups team_cache
              idp_group_cache index team_name l)
       (\<lambda>r. case r of
          RateLimited \<Rightarrow> retM (BatchRateLimited team_name)
        | Processed l' \<Rightarrow>
            migrate_batch api gh_target target_org migrate_users map_idp_groups team_cache
              idp_group_cache (index + 1) rest l')"

text \<open>
  Line 872: \<open>batch[batch.index(team_name):] + [t for b in batches[batch_num:] for t in b]\<close>;
  \<open>batch.index\<close> is the first position of the name in the batch.
\<close>

definition remaining_teams :: "string list list \<Rightarrow> nat \<Rightarrow> string list \<Rightarrow> string \<Rightarrow> string list" where
  "remaining_teams batches batch_num batch team_name =
     dropWhile (\<lambda>t. t \<noteq> team_name) batch @ concat (drop batch_num batches)"

text \<open>
  Lines 713-883: the loop over the batches, \<open>batch_num\<close> counting from 1. The fourth list
  is the batches still to run.
\<close>

fun migrate_batches ::
  "'w api \<Rightarrow> client \<Rightarrow> string \<Rightarrow> bool \<Rightarrow> bool \<Rightarrow> (string \<times> team_info) list
     \<Rightarrow> (string \<times> ext_group) list \<Rightarrow> string list list \<Rightarrow> nat \<Rightarrow> string list list \<Rightarrow> locals
     \<Rightarrow> ('w, (string list, locals) flow) prog" where
  "migrate_batches api gh_target target_org migrate_users map_idp_groups team_cache idp_group_cache
       batches batch_num [] l = retM (Go l)"
| "migrate_batches api gh_target target_org migrate_users map_idp_groups team_cache idp_group_cache
       batches batch_num (batch # rest) l =
     thenM (log_and_print LInfo 714)
       (bindM (migrate_batch api gh_target target_org migrate_users map_idp_groups team_cache
                 idp_group_cache 1 batch l)
         (\<lambda>r. case r of
            BatchRateLimited team_name \<Rightarrow>
              retM (Restart (remaining_teams batches batch_num batch team_name))
          | BatchDone l' \<Rightarrow>
              thenM (if batch_num < length batches then smart_rate_limit_handler api gh_target
                     else retM ())
                (migrate_batches api gh_target target_org migrate_users map_idp_groups team_cache
                   idp_group_cache batches (batch_num + 1) rest l')))"

text \<open>\<open>get_team_by_name\<close> (lines 123-137) and \<open>set_team_parent\<close> (lines 100-121).\<close>

definition get_team_by_name :: "'w api \<Rightarrow> client \<Rightarrow> string \<Rightarrow> string \<Rightarrow> ('w, team option) prog" where
  "get_team_by_name api gh_target org_name team_name =
     tryM
       (bindM (call (GetOrganization gh_target org_name) (api_get_organization api gh_target org_name))
         (\<lambda>org. bindM (get_teams api gh_target org_name)
            (\<lambda>teams. retM (find (\<lambda>team. t_name team = team_name) teams))))
       (\<lambda>e. thenM (log_and_print LError 136) (retM None))"

definition set_team_parent :: "'w api \<Rightarrow> team \<Rightarrow> team \<Rightarrow> ('w, bool) prog" where
  "set_team_parent api team parent_team =
     tryM
       (thenM (log_and_print LInfo 112)
         (bindM (call (TeamEdit team (t_name team) (t_id parent_team))
                   (api_team_edit api team (t_name team) (t_id parent_team)))
           (\<lambda>_. thenM (log_and_print LSuccess 116) (retM True))))
       (\<lambda>e. thenM (log_and_print LError 120) (retM False))"

definition is_success :: "status \<Rightarrow> bool" where
  "is_success st = (st = Success \<or> st = Exists)"

text \<open>Lines 896-916 for one (child, parent) pair; the value is the target cache.\<close>

definition link_parent ::
  "'w api \<Rightarrow> client \<Rightarrow> string \<Rightarrow> (string \<times> status) list \<Rightarrow> string \<Rightarrow> string
     \<Rightarrow> (string \<times> team) list \<Rightarrow> ('w, (string \<times> team) list) prog" where
  "link_parent api gh_target target_org statuses child parent cache =
     (if (case map_of statuses child of None \<Rightarrow> False | Some st \<Rightarrow> is_success st) then
        tryM
          (bindM
            (case map_of cache (lower child) of
               Some t \<Rightarrow> retM (Some t, cache)
             | None \<Rightarrow>
                 bindM (get_team_by_name api gh_target target_org child)
                   (\<lambda>t. retM (t, case t of None \<Rightarrow> cache
                                    | Some tt \<Rightarrow> AList.update (lower child) tt cache)))
            (\<lambda>(target_team, cache1).
              bindM
                (case map_of cache (lower parent) of
                   Some p \<Rightarrow> retM (Some p, cache1)
                 | None \<Rightarrow>
                     bindM (get_team_by_name api gh_target target_org parent)
                       (\<lambda>p. retM (p, case p of None \<Rightarrow> cache1
                                        | Some pp \<Rightarrow> AList.update (lower parent) pp cache1)))
                (\<lambda>(parent_team, cache2).
                  case (target_team, parent_team) of
                    (Some t, Some p) \<Rightarrow> bindM (set_team_parent api t p) (\<lambda>_. retM cache2)
                  | _ \<Rightarrow> retM cache2)))
          (\<lambda>e. thenM (log_and_print LError 916) (retM cache))
      else retM cache)"

fun link_batch ::
  "'w api \<Rightarrow> client \<Rightarrow> string \<Rightarrow> (string \<times> status) list \<Rightarrow> (string \<times> string) list
     \<Rightarrow> (string \<times> team) list \<Rightarrow> ('w, (string \<times> team) list) prog" where
  "link_batch api gh_target target_org statuses [] cache = retM cache"
| "link_batch api gh_target target_org statuses ((child, parent) # rest) cache =
     bindM (link_parent api gh_target target_org statuses child parent cache)
       (\<lambda>cache'. link_batch api gh_target target_org statuses rest cache')"

text \<open>Lines 890-920; \<open>n_batches\<close> is \<open>(len(parent_child_relationships) + 49) // 50\<close>.\<close>

fun link_batches ::
  "'w api \<Rightarrow> client \<Rightarrow> string \<Rightarrow> (string \<times> status) list \<Rightarrow> nat \<Rightarrow> nat
     \<Rightarrow> (string \<times> string) list list \<Rightarrow> (string \<times> team) list \<Rightarrow> ('w, (string \<times> team) list) prog" where
  "link_batches api gh_target target_org statuses n_batches batch_num [] cache = retM cache"
| "link_batches api gh_target target_org statuses n_batches batch_num (relationship_batch # rest) cache =
     thenM (log_and_print LInfo 893)
       (bindM (link_batch api gh_target target_org statuses relationship_batch cache)
         (\<lambda>cache'.
           thenM (if batch_num < n_batches then smart_rate_limit_handler api gh_target else retM ())
             (link_batches api gh_target target_org statuses n_batches (batch_num + 1) rest cache')))"

text \<open>
  Lines 922-934. \<open>write_migration_summary\<close> is not in the source file; its call is recorded
  with its six arguments.
\<close>

definition successful_migrations :: "(string \<times> status) list \<Rightarrow> string list" where
  "successful_migrations statuses = map fst (filter (\<lambda>(team, st). is_success st) statuses)"

definition failed_migrations :: "(string \<times> status) list \<Rightarrow> string list" where
  "failed_migrations statuses = map fst (filter (\<lambda>(team, st). \<not> is_success st) statuses)"

definition all_succeeded :: "(string \<times> status) list \<Rightarrow> bool" where
  "all_succeeded statuses = list_all is_success (map snd statuses)"

section \<open>migrate_teams_optimized: one invocation and the restarts\<close>

text \<open>
  One invocation of the function. It starts with empty \<open>migration_status\<close>,
  \<open>migration_details\<close> and \<open>team_cache\<close> (lines 585-587). It ends either with the summary
  and the returned boolean, or at one of the three \<open>return migrate_teams_optimized(...)\<close>
  (lines 645, 669, 873); \<open>Restart\<close> then carries the \<open>teams_to_migrate\<close> argument of the
  new invocation, the other arguments being passed on unchanged. The function returns the
  boolean only; the model returns the final \<open>migration_status\<close> next to it.
\<close>

definition migrate_teams_attempt ::
  "'w api \<Rightarrow> client \<Rightarrow> client \<Rightarrow> string \<Rightarrow> string \<Rightarrow> string \<Rightarrow> string list option
     \<Rightarrow> bool \<Rightarrow> bool \<Rightarrow> bool
     \<Rightarrow> ('w, (string list option, (string \<times> status) list \<times> bool) flow) prog" where
  "migrate_teams_attempt api gh_source gh_target source_org target_org output_folder teams_to_migrate
       migrate_users map_idp_groups migrate_parent_child =
     bindM (call (GetOrganization gh_source source_org) (api_get_organization api gh_source source_org))
       (\<lambda>source_org_obj.
     bindM (fetch_source_teams api gh_source source_org teams_to_migrate)
       (\<lambda>r1. case r1 of
          Restart _ \<Rightarrow> retM (Restart teams_to_migrate)
        | Go team_cache \<Rightarrow>
     let teams1 = (if the_teams teams_to_migrate = [] then map fst team_cache
                   else the_teams teams_to_migrate) in
     thenM (log_and_print LInfo 653)
       (bindM (call (GetOrganization gh_target target_org) (api_get_organization api gh_target target_org))
       (\<lambda>target_org_obj.
     bindM (fetch_target_teams api gh_target target_org)
       (\<lambda>r2. case r2 of
          Restart _ \<Rightarrow> retM (Restart (Some teams1))
        | Go target_cache \<Rightarrow>
     bindM (if map_idp_groups then prefetch_idp_groups api target_org else retM [])
       (\<lambda>idp_group_cache.
     let parent_child_relationships =
           (if migrate_parent_child then parent_child_pairs team_cache else []);
         teams2 = (if migrate_parent_child
                   then api_optimize api parent_child_relationships team_cache else teams1) in
     thenM (if migrate_parent_child then log_and_print LInfo 703 else retM ())
       (thenM (log_and_print LInfo 707)
       (let batch_size = 100; batches = chunks batch_size teams2 in
     bindM (migrate_batches api gh_target target_org migrate_users map_idp_groups team_cache
              idp_group_cache batches 1 batches
              \<lparr>migration_status = [], migration_details = [], target_teams_cache = target_cache\<rparr>)
       (\<lambda>r3. case r3 of
          Restart remaining \<Rightarrow> retM (Restart (Some remaining))
        | Go l \<Rightarrow>
     bindM (if migrate_parent_child \<and> parent_child_relationships \<noteq> [] then
              thenM (log_and_print LInfo 887)
                (link_batches api gh_target target_org (migration_status l)
                   ((length parent_child_relationships + 49) div 50) 1
                   (chunks 50 parent_child_relationships) (target_teams_cache l))
            else retM (target_teams_cache l))
       (\<lambda>_.
     thenM (emit (WriteSummary output_folder source_org target_org
                    (successful_migrations (migration_status l))
                    (failed_migrations (migration_status l))
                    (migration_details l)))
       (retM (Go (migration_status l, all_succeeded (migration_status l))))))))))))))"

text \<open>
  The function with its restarts. Python bounds the depth of the recursion; \<open>fuel\<close> is the
  number of invocations allowed, and None means that they are used up before an
  invocation ended with a result or an exception.
\<close>

fun migrate_teams_optimized ::
  "nat \<Rightarrow> 'w api \<Rightarrow> client \<Rightarrow> client \<Rightarrow> string \<Rightarrow> string \<Rightarrow> string \<Rightarrow> string list option
     \<Rightarrow> bool \<Rightarrow> bool \<Rightarrow> bool \<Rightarrow> 'w state
     \<Rightarrow> ((exn + (string \<times> status) list \<times> bool) \<times> 'w state) option" where
  "migrate_teams_optimized 0 api gh_source gh_target source_org target_org output_folder
       teams_to_migrate migrate_users map_idp_groups migrate_parent_child s = None"
| "migrate_teams_optimized (Suc fuel) api gh_source gh_target source_org target_org output_folder
       teams_to_migrate migrate_users map_idp_groups migrate_parent_child s =
     (case migrate_teams_attempt api gh_source gh_target source_org target_org output_folder
             teams_to_migrate migrate_users map_idp_groups migrate_parent_child s of
        (Inl e, s') \<Rightarrow> Some (Inl e, s')
      | (Inr (Restart teams'), s') \<Rightarrow>
          migrate_teams_optimized fuel api gh_source gh_target source_org target_org output_folder
            teams' migrate_users map_idp_groups migrate_parent_child s'
      | (Inr (Go result), s') \<Rightarrow> Some (Inr result, s'))"

section \<open>Concrete platforms and inputs\<close>

text \<open>
  \<open>quiet_api\<close> is a platform without state on which every user exists, no organization
  has members or teams, and every REST call fails on the network. The other platforms change
  single operations of it.
\<close>

definition quiet_api :: "unit api" where
  "quiet_api = \<lparr>
     api_get_user = (\<lambda>gh u w. (Inr (Some u), w)),
     api_get_organization = (\<lambda>gh org w. (Inr (), w)),
     api_org_get_members = (\<lambda>gh org w. (Inr [], w)),
     api_org_create_team = (\<lambda>gh org n d p w. (Inr None, w)),
     api_org_get_teams = (\<lambda>gh org w. (Inr [], w)),
     api_org_get_team_by_slug = (\<lambda>gh org slug w. (Inl (UnknownObjectException 404), w)),
     api_team_get_members = (\<lambda>t w. (Inr [], w)),
     api_team_get_membership = (\<lambda>t u w. (Inr ''member'', w)),
     api_team_add_membership = (\<lambda>t u r w. (Inr (), w)),
     api_team_edit = (\<lambda>t n p w. (Inr (), w)),
     api_request = (\<lambda>r w. (Inl RequestException, w)),
     api_get_all_external_groups = (\<lambda>org w. (Inr [], w)),
     api_optimize = (\<lambda>rel cache. map fst cache),
     api_wait = (\<lambda>gh w. w)\<rparr>"

definition s0 :: "unit state" where
  "s0 = \<lparr>world = (), trace = []\<rparr>"

text \<open>A platform whose organization fetch is always rate limited.\<close>

definition rate_limited_org_api :: "unit api" where
  "rate_limited_org_api =
     quiet_api\<lparr>api_get_organization := (\<lambda>gh org w. (Inl (RateLimitExceededException 403), w))\<rparr>"

text \<open>Platforms whose team creation is refused: validation failed, permission denied.\<close>

definition create_422_api :: "unit api" where
  "create_422_api =
     quiet_api\<lparr>api_org_create_team := (\<lambda>gh org n d p w. (Inl (GithubException 422), w))\<rparr>"

definition create_403_api :: "unit api" where
  "create_403_api =
     quiet_api\<lparr>api_org_create_team := (\<lambda>gh org n d p w. (Inl (GithubException 403), w))\<rparr>"

text \<open>A source team and a target team.\<close>

definition src_team :: team where
  "src_team = \<lparr>t_client = GhSource, t_id = 1, t_name = ''Devs'', t_slug = ''devs'',
     t_description = None, t_privacy = ''closed'', t_parent = None\<rparr>"

definition tgt_team :: team where
  "tgt_team = \<lparr>t_client = GhTarget, t_id = 2, t_name = ''Devs'', t_slug = ''devs'',
     t_description = None, t_privacy = ''closed'', t_parent = None\<rparr>"

text \<open>
  Platforms for the member migration: bob is the one member of every team. On
  \<open>bob_api\<close> he is in the organization as well; on \<open>stranger_api\<close> he is not; on
  \<open>role_error_api\<close> he is, but the lookup of his role fails; on \<open>listing_error_api\<close>
  the members of a team cannot be listed.
\<close>

definition stranger_api :: "unit api" where
  "stranger_api = quiet_api\<lparr>api_team_get_members := (\<lambda>t w. (Inr [''bob''], w))\<rparr>"

definition bob_api :: "unit api" where
  "bob_api = stranger_api\<lparr>api_org_get_members := (\<lambda>gh org w. (Inr [''bob''], w))\<rparr>"


definition listing_error_api :: "unit api" where
  "listing_error_api = quiet_api\<lparr>api_team_get_members := (\<lambda>t w. (Inl OtherException, w))\<rparr>"

text \<open>
  The group search in the spec's words (4.6, step 2): the first group whose name matches
  the team slug "case-insensitive exact-or-substring". It is compared with
  \<open>find_matching_group\<close>, which is the search of line 472.
\<close>

definition spec_find_group :: "string \<Rightarrow> ext_group list \<Rightarrow> ext_group option" where
  "spec_find_group team_slug groups =
     find (\<lambda>g. case g_name g of
                 None \<Rightarrow> False
               | Some n \<Rightarrow> lower n = lower team_slug \<or> str_in (lower team_slug) (lower n))
       groups"

text \<open>
  A REST platform: the binding of every team is answered with \<open>binding\<close>, the group search
  with status 200 and \<open>groups\<close>, a patch with status \<open>patch_status\<close>; a delete fails on the
  network.
\<close>

fun rest_answer :: "response \<Rightarrow> ext_group list \<Rightarrow> nat \<Rightarrow> request \<Rightarrow> exn + response" where
  "rest_answer binding groups patch_status (Request GET (TeamExternalGroups org slug) body) =
     Inr binding"
| "rest_answer binding groups patch_status (Request GET (ExternalGroups org name) body) =
     Inr \<lparr>status_code = 200, json = Inr (Some groups)\<rparr>"
| "rest_answer binding groups patch_status (Request PATCH url body) =
     Inr \<lparr>status_code = patch_status, json = Inr None\<rparr>"
| "rest_answer binding groups patch_status r = Inl RequestException"

definition rest_api :: "response \<Rightarrow> ext_group list \<Rightarrow> nat \<Rightarrow> unit api" where
  "rest_api binding groups patch_status =
     quiet_api\<lparr>api_request := (\<lambda>r w. (rest_answer binding groups patch_status r, w))\<rparr>"

definition not_bound :: response where
  "not_bound = \<lparr>status_code = 404, json = Inr None\<rparr>"

definition bound_to :: "ext_group \<Rightarrow> response" where
  "bound_to g = \<lparr>status_code = 200, json = Inr (Some [g])\<rparr>"

definition developers :: ext_group where
  "developers = \<lparr>g_id = Some 7, g_name = Some ''developers''\<rparr>"

definition dev_upper :: ext_group where
  "dev_upper = \<lparr>g_id = Some 8, g_name = Some ''DEV''\<rparr>"

text \<open>
  A platform with a counter: the source organization has the one team \<open>devs\<close>, the target
  organization has no team, and the first creation of a team is rate limited (the counter
  tells how many creations were tried).
\<close>

definition flaky_api :: "nat api" where
  "flaky_api = \<lparr>
     api_get_user = (\<lambda>gh u w. (Inr (Some u), w)),
     api_get_organization = (\<lambda>gh org w. (Inr (), w)),
     api_org_get_members = (\<lambda>gh org w. (Inr [], w)),
     api_org_create_team = (\<lambda>gh org n d p w.
        if w = 0 then (Inl (RateLimitExceededException 403), Suc w) else (Inr (Some tgt_team), Suc w)),
     api_org_get_teams = (\<lambda>gh org w. (Inr (if gh = GhSource then [src_team] else []), w)),
     api_org_get_team_by_slug = (\<lambda>gh org slug w.
        if slug = ''devs'' then (Inr src_team, w) else (Inl (UnknownObjectException 404), w)),
     api_team_get_members = (\<lambda>t w. (Inr [], w)),
     api_team_get_membership = (\<lambda>t u w. (Inr ''member'', w)),
     api_team_add_membership = (\<lambda>t u r w. (Inr (), w)),
     api_team_edit = (\<lambda>t n p w. (Inr (), w)),
     api_request = (\<lambda>r w. (Inl RequestException, w)),
     api_get_all_external_groups = (\<lambda>org w. (Inr [], w)),
     api_optimize = (\<lambda>rel cache. map fst cache),
     api_wait = (\<lambda>gh w. w)\<rparr>"

section \<open>Properties: unfolding the effects\<close>

text \<open>The combinators of the effects, unfolded together when a program is run by hand.\<close>

lemmas prog_defs =
  tryM_def bindM_def thenM_def retM_def raiseM_def call_def log_and_print_def emit_def
  smart_rate_limit_handler_def

section \<open>user_exists_in_org: bounded retry\<close>

lemma trace_s0: "trace s0 = []"
  by (simp add: s0_def)

lemma world_s0: "world s0 = ()"
  by (simp add: s0_def)

lemma new_events_append: "trace s' = trace s @ tr \<Longrightarrow> new_events s s' = tr"
  by (simp add: new_events_def)

lemma user_exists_attempt_shape:
  "\<exists>r s' tr. user_exists_attempt api gh org v s = (Inr r, s') \<and> trace s' = trace s @ tr
     \<and> fetches_and_waits tr =
           (if r = Continue then [GetOrganization gh org, RateLimitWait gh] else [GetOrganization gh org])
     \<and> filter is_TeamAddMembership tr = []"
  by (auto simp: user_exists_attempt_def fetches_and_waits_def prog_defs split: prod.splits sum.splits)

lemma validate_user_shape:
  "\<exists>r s' tr. validate_user api gh u s = (Inr r, s') \<and> trace s' = trace s @ tr
     \<and> fetches_and_waits tr = [] \<and> filter is_TeamAddMembership tr = []"
  by (auto simp: validate_user_def fetches_and_waits_def prog_defs split: prod.splits sum.splits)

lemma fetches_and_waits_append:
  "fetches_and_waits (xs @ ys) = fetches_and_waits xs @ fetches_and_waits ys"
  by (simp add: fetches_and_waits_def)

lemma user_exists_while_last:
  "\<exists>b s' tr. user_exists_while api gh org v 1 s = (Inr b, s') \<and> trace s' = trace s @ tr
     \<and> (fetches_and_waits tr = [GetOrganization gh org]
          \<or> fetches_and_waits tr = [GetOrganization gh org, RateLimitWait gh] \<and> \<not> b)
     \<and> filter is_TeamAddMembership tr = []"
proof -
  obtain r1 s1 tr1 where
    a1: "user_exists_attempt api gh org v s = (Inr r1, s1)"
    and t1: "trace s1 = trace s @ tr1"
    and f1: "fetches_and_waits tr1 =
           (if r1 = Continue then [GetOrganization gh org, RateLimitWait gh] else [GetOrganization gh org])"
    and m1: "filter is_TeamAddMembership tr1 = []"
    using user_exists_attempt_shape[of api gh org v s] by auto
  note unroll = user_exists_while.simps[of _ _ _ _ 1] user_exists_while.simps[of _ _ _ _ 2]
    max_attempts_def
  show ?thesis using a1 t1 f1 m1 by (cases r1) (auto simp add: unroll)
qed

lemma user_exists_while_shape:
  "\<exists>b s' tr. user_exists_while api gh org v 0 s = (Inr b, s') \<and> trace s' = trace s @ tr
     \<and> (fetches_and_waits tr = [GetOrganization gh org]
          \<or> fetches_and_waits tr = [GetOrganization gh org, RateLimitWait gh, GetOrganization gh org]
          \<or> fetches_and_waits tr = [GetOrganization gh org, RateLimitWait gh,
                                      GetOrganization gh org, RateLimitWait gh] \<and> \<not> b)
     \<and> filter is_TeamAddMembership tr = []"
proof -
  obtain r1 s1 tr1 where
    a1: "user_exists_attempt api gh org v s = (Inr r1, s1)"
    and t1: "trace s1 = trace s @ tr1"
    and f1: "fetches_and_waits tr1 =
           (if r1 = Continue then [GetOrganization gh org, RateLimitWait gh] else [GetOrganization gh org])"
    and m1: "filter is_TeamAddMembership tr1 = []"
    using user_exists_attempt_shape[of api gh org v s] by auto
  show ?thesis
  proof (cases r1)
    case (Return b)
    then show ?thesis using a1 t1 f1 m1
      by (subst user_exists_while.simps) (auto simp: max_attempts_def)
  next
    case Continue
    obtain b s' tr where
      n: "user_exists_while api gh org v 1 s1 = (Inr b, s')"
      and t: "trace s' = trace s1 @ tr"
      and f: "fetches_and_waits tr = [GetOrganization gh org]
          \<or> fetches_and_waits tr = [GetOrganization gh org, RateLimitWait gh] \<and> \<not> b"
      and m: "filter is_TeamAddMembership tr = []"
      using user_exists_while_last[of api gh org v s1] by auto
    have "user_exists_while api gh org v 0 s = (Inr b, s')"
      using a1 Continue n by (subst user_exists_while.simps) (simp add: max_attempts_def)
    moreover have "trace s' = trace s @ (tr1 @ tr)" using t t1 by simp
    moreover have "fetches_and_waits (tr1 @ tr)
          = [GetOrganization gh org, RateLimitWait gh, GetOrganization gh org]
          \<or> fetches_and_waits (tr1 @ tr) = [GetOrganization gh org, RateLimitWait gh,
                                      GetOrganization gh org, RateLimitWait gh] \<and> \<not> b"
      using f f1 Continue by (auto simp: fetches_and_waits_append)
    moreover have "filter is_TeamAddMembership (tr1 @ tr) = []" using m m1 by simp
    ultimately show ?thesis by blast
  qed
qed

lemma user_exists_in_org_shape:
  "\<exists>b s' tr. user_exists_in_org api gh_client org_name username s = (Inr b, s')
     \<and> trace s' = trace s @ tr
     \<and> (fetches_and_waits tr = [] \<and> \<not> b
          \<or> fetches_and_waits tr = [GetOrganization gh_client org_name]
          \<or> fetches_and_waits tr = [GetOrganization gh_client org_name, RateLimitWait gh_client,
                                      GetOrganization gh_client org_name]
          \<or> fetches_and_waits tr = [GetOrganization gh_client org_name, RateLimitWait gh_client,
                                      GetOrganization gh_client org_name, RateLimitWait gh_client]
             \<and> \<not> b)
     \<and> filter is_TeamAddMembership tr = []"
proof (cases "username = [] \<or> strip username = []")
  case True
  then show ?thesis by (auto simp: user_exists_in_org_def retM_def fetches_and_waits_def)
next
  case False
  obtain r s1 tr where
    v: "validate_user api gh_client username s = (Inr r, s1)"
    and vt: "trace s1 = trace s @ tr"
    and vf: "fetches_and_waits tr = []"
    and vm: "filter is_TeamAddMembership tr = []"
    using validate_user_shape[of api gh_client username s] by auto
  show ?thesis
  proof (cases "r = None \<or> r = Some []")
    case True
    have "user_exists_in_org api gh_client org_name username s = (Inr False, s1)"
      using True False v by (auto simp: user_exists_in_org_def retM_def bindM_def)
    then show ?thesis using vt vf vm by blast
  next
    case nz: False
    then obtain v0 where r: "r = Some v0" and v0: "v0 \<noteq> []" by (cases r) auto
    obtain b s2 tr2 where
      w: "user_exists_while api gh_client org_name v0 0 s1 = (Inr b, s2)"
      and wt: "trace s2 = trace s1 @ tr2"
      and wf: "fetches_and_waits tr2 = [GetOrganization gh_client org_name]
          \<or> fetches_and_waits tr2 = [GetOrganization gh_client org_name, RateLimitWait gh_client,
                                       GetOrganization gh_client org_name]
          \<or> fetches_and_waits tr2 = [GetOrganization gh_client org_name, RateLimitWait gh_client,
                                      GetOrganization gh_client org_name, RateLimitWait gh_client]
             \<and> \<not> b"
      and wm: "filter is_TeamAddMembership tr2 = []"
      using user_exists_while_shape[of api gh_client org_name v0 s1] by auto
    have "user_exists_in_org api gh_client org_name username s = (Inr b, s2)"
      using False v r v0 w by (simp add: user_exists_in_org_def retM_def bindM_def)
    moreover have "trace s2 = trace s @ (tr @ tr2)" using vt wt by simp
    moreover have "fetches_and_waits (tr @ tr2) = fetches_and_waits tr2"
      using vf by (simp add: fetches_and_waits_append)
    moreover have "filter is_TeamAddMembership (tr @ tr2) = []" using vm wm by simp
    ultimately show ?thesis using wf by (metis (no_types, lifting))
  qed
qed

text \<open>
  C7. \<open>user_exists_in_org\<close> always returns a boolean (the loop is a total function and
  nothing escapes its handlers). The organization fetches and rate-limit waits of a run are,
  in this order, one of: none, and the answer is False; one fetch; a fetch, a wait and a
  second fetch; a fetch, a wait, a second fetch and a second wait, and the answer is False.
  So the fetch is repeated at most once, only after a rate-limit wait, there are at most two
  attempts, and when both are used up the function gives False.
\<close>

theorem user_exists_in_org_bounded:
  "\<exists>b s'. user_exists_in_org api gh_client org_name username s = (Inr b, s')
     \<and> (fetches_and_waits (new_events s s') = [] \<and> b = False
          \<or> fetches_and_waits (new_events s s') = [GetOrganization gh_client org_name]
          \<or> fetches_and_waits (new_events s s') =
               [GetOrganization gh_client org_name, RateLimitWait gh_client,
                GetOrganization gh_client org_name]
          \<or> fetches_and_waits (new_events s s') =
               [GetOrganization gh_client org_name, RateLimitWait gh_client,
                GetOrganization gh_client org_name, RateLimitWait gh_client]
             \<and> b = False)"
proof -
  obtain b s' tr where "user_exists_in_org api gh_client org_name username s = (Inr b, s')"
    and "trace s' = trace s @ tr"
    and "fetches_and_waits tr = [] \<and> \<not> b
          \<or> fetches_and_waits tr = [GetOrganization gh_client org_name]
          \<or> fetches_and_waits tr = [GetOrganization gh_client org_name, RateLimitWait gh_client,
                                      GetOrganization gh_client org_name]
          \<or> fetches_and_waits tr = [GetOrganization gh_client org_name, RateLimitWait gh_client,
                                      GetOrganization gh_client org_name, RateLimitWait gh_client]
             \<and> \<not> b"
    using user_exists_in_org_shape[of api gh_client org_name username s] by blast
  then show ?thesis by (simp add: new_events_append)
qed

lemma user_exists_rate_limited_run:
  "user_exists_in_org rate_limited_org_api GhTarget ''org'' ''bob'' s0 =
     (Inr False, \<lparr>world = (), trace =
        [GetUser GhTarget ''bob'',
         GetOrganization GhTarget ''org'', Log LWarning 41, RateLimitWait GhTarget,
         GetOrganization GhTarget ''org'', Log LWarning 41, RateLimitWait GhTarget]\<rparr>)"
  by (simp add: user_exists_in_org_def rate_limited_org_api_def quiet_api_def s0_def
      validate_user_def user_exists_attempt_def max_attempts_def prog_defs strip_def is_space_def)

theorem user_exists_in_org_bounded_witness:
  "\<exists>s'. user_exists_in_org rate_limited_org_api GhTarget ''org'' ''bob'' s0 = (Inr False, s')
     \<and> fetches_and_waits (new_events s0 s') =
          [GetOrganization GhTarget ''org'', RateLimitWait GhTarget,
           GetOrganization GhTarget ''org'', RateLimitWait GhTarget]"
  using user_exists_in_org_bounded[of rate_limited_org_api GhTarget "''org''" "''bob''" s0]
  by (simp add: user_exists_rate_limited_run new_events_def trace_s0 fetches_and_waits_def)

section \<open>create_gh_team: every failure of the creation is raised again\<close>

text \<open>
  C2 (as amended). When the organization is fetched, the team is not in the cache and
  \<open>org.create_team\<close> raises \<open>e\<close>, \<open>create_gh_team\<close> raises the same \<open>e\<close> to its caller,
  whatever \<open>e\<close> is. A GithubException is first logged at error level on line 86 (status
  422), 88 (status 403) or 90 (any other status), and every exception is logged on line 94
  (rate limit) or 97 (any other). The team is created at most once: there is no retry and no
  result with a failed state.
\<close>

theorem create_gh_team_reraises:
  assumes org: "api_get_organization api gh_target org_name (world s) = (Inr (), w1)"
    and miss: "map_of (case cache of None \<Rightarrow> [] | Some c \<Rightarrow> c) (lower team_name) = None"
    and fail: "api_org_create_team api gh_target org_name team_name description privacy w1 = (Inl e, w2)"
  shows "\<exists>s'. create_gh_team api gh_target org_name team_name description privacy cache s
            = (Inl e, s')
         \<and> world s' = w2
         \<and> new_events s s' =
             [GetOrganization gh_target org_name,
              OrgCreateTeam gh_target org_name team_name description privacy]
             @ (if is_GithubException e
                then [Log LError (if exn_status e = Some 422 then 86
                                  else if exn_status e = Some 403 then 88 else 90)]
                else [])
             @ [Log LError (if is_RateLimitExceededException e then 94 else 97)]"
  using org miss fail
  by (simp add: create_gh_team_def prog_defs new_events_def)

text \<open>
  The claim as stated fails: on a validation error (422) the function does not end with a
  failed state, it raises the GithubException again.
\<close>

theorem create_gh_team_422_counterexample:
  "create_gh_team create_422_api GhTarget ''org'' ''devs'' '''' ''closed'' None s0 =
     (Inl (GithubException 422),
      \<lparr>world = (), trace = [GetOrganization GhTarget ''org'',
          OrgCreateTeam GhTarget ''org'' ''devs'' '''' ''closed'', Log LError 86, Log LError 97]\<rparr>)"
  by (simp add: create_gh_team_def create_422_api_def quiet_api_def s0_def prog_defs)

theorem create_gh_team_reraises_witness:
  "\<exists>s'. create_gh_team create_403_api GhTarget ''org'' ''devs'' '''' ''closed'' None s0
            = (Inl (GithubException 403), s')
     \<and> new_events s0 s' =
          [GetOrganization GhTarget ''org'', OrgCreateTeam GhTarget ''org'' ''devs'' '''' ''closed'',
           Log LError 88, Log LError 97]"
  using create_gh_team_reraises[of create_403_api GhTarget "''org''" s0 "()" None "''devs''" "''''"
      "''closed''" "GithubException 403" "()"]
  by (simp add: create_403_api_def quiet_api_def world_s0)

section \<open>migrate_team_members: one member\<close>

lemma role_with_retry_shape:
  "\<exists>r s' tr. role_with_retry api source_team login s = (r, s') \<and> trace s' = trace s @ tr
     \<and> filter is_TeamAddMembership tr = []"
  by (auto simp: role_with_retry_def get_role_def prog_defs split: prod.splits sum.splits)

lemma add_with_retry_shape:
  "\<exists>r s' tr. add_with_retry api target_team login role s = (r, s') \<and> trace s' = trace s @ tr
     \<and> TeamAddMembership target_team login role \<in> set tr"
  by (auto simp: add_with_retry_def add_membership_def prog_defs split: prod.splits sum.splits)

lemma migrate_member_skip:
  assumes "user_exists_in_org api gh_target target_org login (s\<lparr>trace := trace s @ [Log LInfo 159]\<rparr>)
             = (Inr False, s2)"
  shows "migrate_member api source_team target_team gh_target target_org login acc s =
     (Inr (acc\<lparr>users_status := AList.update login USkipped (users_status acc),
                members_failed := members_failed acc + 1,
                member_details := member_details acc @ [DSkipped login]\<rparr>), s2)"
  using assms by (simp add: migrate_member_def prog_defs)

lemma migrate_member_role_fails:
  assumes "user_exists_in_org api gh_target target_org login (s\<lparr>trace := trace s @ [Log LInfo 159]\<rparr>)
             = (Inr True, s2)"
    and "role_with_retry api source_team login s2 = (Inl e, s3)"
  shows "migrate_member api source_team target_team gh_target target_org login acc s =
     (Inr (acc\<lparr>users_status := AList.update login (UFailed e) (users_status acc),
                members_failed := members_failed acc + 1,
                member_details := member_details acc @
                  [if is_RateLimitExceededException e then DFailedRateLimit login else DFailed login e]\<rparr>),
      s3\<lparr>trace := trace s3 @ [Log LError (if is_RateLimitExceededException e then 201 else 215)]\<rparr>)"
  using assms by (simp add: migrate_member_def prog_defs)

lemma migrate_member_add_fails:
  assumes "user_exists_in_org api gh_target target_org login (s\<lparr>trace := trace s @ [Log LInfo 159]\<rparr>)
             = (Inr True, s2)"
    and "role_with_retry api source_team login s2 = (Inr role, s3)"
    and "add_with_retry api target_team login role (s3\<lparr>trace := trace s3 @ [Log LInfo 183]\<rparr>) = (Inl e, s4)"
  shows "migrate_member api source_team target_team gh_target target_org login acc s =
     (Inr (acc\<lparr>users_status := AList.update login (UFailed e) (users_status acc),
                members_failed := members_failed acc + 1,
                member_details := member_details acc @
                  [if is_RateLimitExceededException e then DFailedRateLimit login else DFailed login e]\<rparr>),
      s4\<lparr>trace := trace s4 @ [Log LError (if is_RateLimitExceededException e then 201 else 215)]\<rparr>)"
  using assms by (simp add: migrate_member_def prog_defs)

lemma migrate_member_added:
  assumes "user_exists_in_org api gh_target target_org login (s\<lparr>trace := trace s @ [Log LInfo 159]\<rparr>)
             = (Inr True, s2)"
    and "role_with_retry api source_team login s2 = (Inr role, s3)"
    and "add_with_retry api target_team login role (s3\<lparr>trace := trace s3 @ [Log LInfo 183]\<rparr>) = (Inr (), s4)"
  shows "migrate_member api source_team target_team gh_target target_org login acc s =
     (Inr (acc\<lparr>users_status := AList.update login (USuccess role) (users_status acc),
                members_migrated := members_migrated acc + 1,
                member_details := member_details acc @ [DSuccess login role]\<rparr>),
      s4\<lparr>trace := trace s4 @ [Log LSuccess 198]\<rparr>)"
  using assms by (simp add: migrate_member_def prog_defs)

text \<open>What one pass of the loop does, by the answer of \<open>user_exists_in_org\<close>.\<close>

lemma migrate_member_outcome:
  assumes u: "user_exists_in_org api gh_target target_org login (s\<lparr>trace := trace s @ [Log LInfo 159]\<rparr>)
             = (Inr found, s2)"
  shows "\<exists>acc' s' d tr. migrate_member api source_team target_team gh_target target_org login acc s
            = (Inr acc', s')
     \<and> trace s' = trace s @ tr
     \<and> member_details acc' = member_details acc @ [d]
     \<and> members_failed acc' = members_failed acc + (if is_DSuccess d then 0 else 1)
     \<and> members_migrated acc' = members_migrated acc + (if is_DSuccess d then 1 else 0)
     \<and> (if found
         then (\<exists>role. d = DSuccess login role
                  \<and> users_status acc' = AList.update login (USuccess role) (users_status acc)
                  \<and> TeamAddMembership target_team login role \<in> set tr)
              \<or> (\<exists>e. (d = DFailedRateLimit login \<or> d = DFailed login e)
                  \<and> users_status acc' = AList.update login (UFailed e) (users_status acc))
         else d = DSkipped login \<and> s' = s2
              \<and> users_status acc' = AList.update login USkipped (users_status acc)
              \<and> filter is_TeamAddMembership tr = [])"
proof -
  let ?s1 = "s\<lparr>trace := trace s @ [Log LInfo 159]\<rparr>"
  let ?P = "\<lambda>acc' s' d tr. migrate_member api source_team target_team gh_target target_org login acc s
            = (Inr acc', s')
     \<and> trace s' = trace s @ tr
     \<and> member_details acc' = member_details acc @ [d]
     \<and> members_failed acc' = members_failed acc + (if is_DSuccess d then 0 else 1)
     \<and> members_migrated acc' = members_migrated acc + (if is_DSuccess d then 1 else 0)
     \<and> (if found
         then (\<exists>role. d = DSuccess login role
                  \<and> users_status acc' = AList.update login (USuccess role) (users_status acc)
                  \<and> TeamAddMembership target_team login role \<in> set tr)
              \<or> (\<exists>e. (d = DFailedRateLimit login \<or> d = DFailed login e)
                  \<and> users_status acc' = AList.update login (UFailed e) (users_status acc))
         else d = DSkipped login \<and> s' = s2
              \<and> users_status acc' = AList.update login USkipped (users_status acc)
              \<and> filter is_TeamAddMembership tr = [])"
  obtain tr1 where t2: "trace s2 = trace ?s1 @ tr1" and m1: "filter is_TeamAddMembership tr1 = []"
    using user_exists_in_org_shape[of api gh_target target_org login ?s1] u by auto
  show ?thesis
  proof (cases found)
    case False
    have uF: "user_exists_in_org api gh_target target_org login ?s1 = (Inr False, s2)"
      using u False by simp
    have "?P (acc\<lparr>users_status := AList.update login USkipped (users_status acc),
                members_failed := members_failed acc + 1,
                member_details := member_details acc @ [DSkipped login]\<rparr>)
             s2 (DSkipped login) (Log LInfo 159 # tr1)"
      using migrate_member_skip[OF uF, of source_team target_team acc] False t2 m1 by simp
    then show ?thesis by blast
  next
    case True
    have uT: "user_exists_in_org api gh_target target_org login ?s1 = (Inr True, s2)"
      using u True by simp
    obtain r3 s3 tr3 where r: "role_with_retry api source_team login s2 = (r3, s3)"
      and t3: "trace s3 = trace s2 @ tr3"
      using role_with_retry_shape[of api source_team login s2] by auto
    show ?thesis
    proof (cases r3)
      case (Inl e)
      let ?l = "Log LError (if is_RateLimitExceededException e then 201 else 215)"
      have "?P (acc\<lparr>users_status := AList.update login (UFailed e) (users_status acc),
                members_failed := members_failed acc + 1,
                member_details := member_details acc @
                  [if is_RateLimitExceededException e then DFailedRateLimit login else DFailed login e]\<rparr>)
             (s3\<lparr>trace := trace s3 @ [?l]\<rparr>)
             (if is_RateLimitExceededException e then DFailedRateLimit login else DFailed login e)
             (Log LInfo 159 # tr1 @ tr3 @ [?l])"
        using migrate_member_role_fails[OF uT r[unfolded Inl], of target_team acc] True t2 t3
        by auto
      then show ?thesis by blast
    next
      case (Inr role)
      let ?s3' = "s3\<lparr>trace := trace s3 @ [Log LInfo 183]\<rparr>"
      obtain r4 s4 tr4 where a: "add_with_retry api target_team login role ?s3' = (r4, s4)"
        and t4: "trace s4 = trace ?s3' @ tr4"
        and ev: "TeamAddMembership target_team login role \<in> set tr4"
        using add_with_retry_shape[of api target_team login role ?s3'] by auto
      show ?thesis
      proof (cases r4)
        case (Inl e)
        let ?l = "Log LError (if is_RateLimitExceededException e then 201 else 215)"
        have "?P (acc\<lparr>users_status := AList.update login (UFailed e) (users_status acc),
                members_failed := members_failed acc + 1,
                member_details := member_details acc @
                  [if is_RateLimitExceededException e then DFailedRateLimit login else DFailed login e]\<rparr>)
             (s4\<lparr>trace := trace s4 @ [?l]\<rparr>)
             (if is_RateLimitExceededException e then DFailedRateLimit login else DFailed login e)
             (Log LInfo 159 # tr1 @ tr3 @ Log LInfo 183 # tr4 @ [?l])"
          using migrate_member_add_fails[OF uT r[unfolded Inr] a[unfolded Inl], of acc] True t2 t3 t4
          by auto
        then show ?thesis by blast
      next
        case rr: (Inr u4)
        have a4: "add_with_retry api target_team login role ?s3' = (Inr (), s4)"
          using a rr by simp
        have "?P (acc\<lparr>users_status := AList.update login (USuccess role) (users_status acc),
                members_migrated := members_migrated acc + 1,
                member_details := member_details acc @ [DSuccess login role]\<rparr>)
             (s4\<lparr>trace := trace s4 @ [Log LSuccess 198]\<rparr>)
             (DSuccess login role)
             (Log LInfo 159 # tr1 @ tr3 @ Log LInfo 183 # tr4 @ [Log LSuccess 198])"
          using migrate_member_added[OF uT r[unfolded Inr] a4, of acc] True t2 t3 t4 ev
          by auto
        then show ?thesis by blast
      qed
    qed
  qed
qed


section \<open>migrate_team_members: the loop and the result\<close>

lemma user_exists_in_org_returns:
  "\<exists>found s2. user_exists_in_org api gh_client org_name username s = (Inr found, s2)"
  using user_exists_in_org_shape[of api gh_client org_name username s] by blast

lemma migrate_member_counts:
  "\<exists>acc' s' d. migrate_member api source_team target_team gh_target target_org login acc s
            = (Inr acc', s')
     \<and> member_details acc' = member_details acc @ [d]
     \<and> members_failed acc' = members_failed acc + (if is_DSuccess d then 0 else 1)
     \<and> members_migrated acc' = members_migrated acc + (if is_DSuccess d then 1 else 0)"
proof -
  obtain found s2 where
    "user_exists_in_org api gh_target target_org login (s\<lparr>trace := trace s @ [Log LInfo 159]\<rparr>)
       = (Inr found, s2)"
    using user_exists_in_org_returns by blast
  from migrate_member_outcome[OF this, of source_team target_team acc]
  show ?thesis by blast
qed

lemma migrate_members_loop_counts:
  "\<exists>acc' s' ds. migrate_members_loop api source_team target_team gh_target target_org logins acc s
            = (Inr acc', s')
     \<and> member_details acc' = member_details acc @ ds
     \<and> length ds = length logins
     \<and> members_failed acc' = members_failed acc + length (filter (\<lambda>d. \<not> is_DSuccess d) ds)
     \<and> members_migrated acc' = members_migrated acc + length (filter is_DSuccess ds)"
proof (induction logins arbitrary: acc s)
  case Nil
  then show ?case by (simp add: retM_def)
next
  case (Cons login rest)
  obtain acc1 s1 d where
    m: "migrate_member api source_team target_team gh_target target_org login acc s = (Inr acc1, s1)"
    and d1: "member_details acc1 = member_details acc @ [d]"
    and f1: "members_failed acc1 = members_failed acc + (if is_DSuccess d then 0 else 1)"
    and g1: "members_migrated acc1 = members_migrated acc + (if is_DSuccess d then 1 else 0)"
    using migrate_member_counts[of api source_team target_team gh_target target_org login acc s]
    by blast
  obtain acc' s' ds where
    l: "migrate_members_loop api source_team target_team gh_target target_org rest acc1 s1
          = (Inr acc', s')"
    and d2: "member_details acc' = member_details acc1 @ ds"
    and n2: "length ds = length rest"
    and f2: "members_failed acc' = members_failed acc1 + length (filter (\<lambda>d. \<not> is_DSuccess d) ds)"
    and g2: "members_migrated acc' = members_migrated acc1 + length (filter is_DSuccess ds)"
    using Cons.IH[of acc1 s1] by blast
  have "migrate_members_loop api source_team target_team gh_target target_org (login # rest) acc s
          = (Inr acc', s')"
    using m l by (simp add: bindM_def)
  moreover have "member_details acc' = member_details acc @ (d # ds)" using d1 d2 by simp
  moreover have "length (d # ds) = length (login # rest)" using n2 by simp
  moreover have "members_failed acc'
      = members_failed acc + length (filter (\<lambda>d. \<not> is_DSuccess d) (d # ds))"
    using f1 f2 by simp
  moreover have "members_migrated acc' = members_migrated acc + length (filter is_DSuccess (d # ds))"
    using g1 g2 by simp
  ultimately show ?case by blast
qed

lemma migrate_team_members_listing_fails:
  assumes "list_source_members api source_team s = (Inl e, s1)"
  shows "migrate_team_members api source_team target_team gh_target target_org s =
     (Inr ([], \<lparr>mr_success = False, mr_total_members = 0, mr_members_migrated = 0,
                mr_members_failed = 0,
                mr_member_details = [if is_RateLimitExceededException e then DErrorRateLimit else DError e]\<rparr>),
      s1\<lparr>trace := trace s1 @ [Log LError (if is_RateLimitExceededException e then 227 else 237)]\<rparr>)"
  using assms by (simp add: migrate_team_members_def Let_def prog_defs)

lemma migrate_team_members_listed:
  assumes "list_source_members api source_team s = (Inr source_members, s1)"
  shows "\<exists>us r s'. migrate_team_members api source_team target_team gh_target target_org s
            = (Inr (us, r), s')
     \<and> mr_success r = (mr_members_failed r = 0)
     \<and> mr_total_members r = length source_members
     \<and> length (mr_member_details r) = length source_members
     \<and> mr_members_failed r = length (filter (\<lambda>d. \<not> is_DSuccess d) (mr_member_details r))
     \<and> mr_members_migrated r = length (filter is_DSuccess (mr_member_details r))"
proof -
  let ?acc0 = "\<lparr>users_status = [], member_details = [], members_migrated = 0, members_failed = 0\<rparr>"
  let ?s2 = "s1\<lparr>trace := trace s1 @ [Log LInfo 156]\<rparr>"
  obtain acc' s' ds where
    l: "migrate_members_loop api source_team target_team gh_target target_org source_members ?acc0 ?s2
          = (Inr acc', s')"
    and d: "member_details acc' = member_details ?acc0 @ ds"
    and n: "length ds = length source_members"
    and f: "members_failed acc' = members_failed ?acc0 + length (filter (\<lambda>d. \<not> is_DSuccess d) ds)"
    and g: "members_migrated acc' = members_migrated ?acc0 + length (filter is_DSuccess ds)"
    using migrate_members_loop_counts[of api source_team target_team gh_target target_org
        source_members ?acc0 ?s2] by blast
  have "migrate_team_members api source_team target_team gh_target target_org s =
     (Inr (users_status acc',
        \<lparr>mr_success = (members_failed acc' = 0), mr_total_members = length source_members,
         mr_members_migrated = members_migrated acc', mr_members_failed = members_failed acc',
         mr_member_details = member_details acc'\<rparr>), s')"
    using assms l by (simp add: migrate_team_members_def Let_def prog_defs)
  then show ?thesis using d n f g by simp
qed

text \<open>
  C6 (as amended). \<open>migrate_team_members\<close> always returns its result, whatever happens to
  single members: it never raises. When the source members can be listed, \<open>success\<close> is true
  exactly when \<open>members_failed\<close> is zero, and \<open>members_failed\<close> counts every member that was
  not added. When the listing fails (after its one retry on a rate limit), \<open>success\<close> is
  false although \<open>members_failed\<close> is zero.
\<close>

theorem migrate_team_members_success:
  "\<exists>us r s'. migrate_team_members api source_team target_team gh_target target_org s
       = (Inr (us, r), s')
     \<and> (case fst (list_source_members api source_team s) of
          Inl e \<Rightarrow> mr_success r = False \<and> mr_members_failed r = 0 \<and> mr_total_members r = 0
        | Inr source_members \<Rightarrow>
            mr_success r = (mr_members_failed r = 0)
            \<and> mr_total_members r = length source_members
            \<and> mr_members_failed r
                = length (filter (\<lambda>d. \<not> is_DSuccess d) (mr_member_details r)))"
proof (cases "list_source_members api source_team s")
  case (Pair res s1)
  show ?thesis
  proof (cases res)
    case (Inl e)
    show ?thesis
      using migrate_team_members_listing_fails[OF Pair[unfolded Inl], of target_team gh_target target_org]
        Pair Inl by simp
  next
    case (Inr source_members)
    show ?thesis
      using migrate_team_members_listed[OF Pair[unfolded Inr], of target_team gh_target target_org]
        Pair Inr by auto
  qed
qed

text \<open>
  The claim as stated fails: when the members of the source team cannot be listed, no
  member has failed and yet \<open>success\<close> is false.
\<close>

theorem migrate_team_members_listing_counterexample:
  "migrate_team_members listing_error_api src_team tgt_team GhTarget ''org'' s0 =
     (Inr ([], \<lparr>mr_success = False, mr_total_members = 0, mr_members_migrated = 0,
                mr_members_failed = 0, mr_member_details = [DError OtherException]\<rparr>),
      \<lparr>world = (), trace = [TeamGetMembers src_team, Log LError 237]\<rparr>)"
  by (simp add: migrate_team_members_def Let_def list_source_members_def listing_error_api_def
      quiet_api_def s0_def prog_defs)

lemmas member_run_defs =
  migrate_team_members_def Let_def list_source_members_def migrate_member_def role_with_retry_def
  add_with_retry_def get_role_def add_membership_def user_exists_in_org_def validate_user_def
  user_exists_attempt_def max_attempts_def strip_def is_space_def prog_defs s0_def

lemma bob_run:
  "migrate_team_members bob_api src_team tgt_team GhTarget ''org'' s0 =
     (Inr ([(''bob'', USuccess ''member'')],
        \<lparr>mr_success = True, mr_total_members = 1, mr_members_migrated = 1, mr_members_failed = 0,
         mr_member_details = [DSuccess ''bob'' ''member'']\<rparr>),
      \<lparr>world = (), trace =
        [TeamGetMembers src_team, Log LInfo 156, Log LInfo 159, GetUser GhTarget ''bob'',
         GetOrganization GhTarget ''org'', OrgGetMembers GhTarget ''org'', Log LInfo 175,
         TeamGetMembership src_team ''bob'', Log LInfo 183,
         TeamAddMembership tgt_team ''bob'' ''member'', Log LSuccess 198]\<rparr>)"
  by (simp add: member_run_defs bob_api_def stranger_api_def quiet_api_def)

lemma stranger_run:
  "migrate_team_members stranger_api src_team tgt_team GhTarget ''org'' s0 =
     (Inr ([(''bob'', USkipped)],
        \<lparr>mr_success = False, mr_total_members = 1, mr_members_migrated = 0, mr_members_failed = 1,
         mr_member_details = [DSkipped ''bob'']\<rparr>),
      \<lparr>world = (), trace =
        [TeamGetMembers src_team, Log LInfo 156, Log LInfo 159, GetUser GhTarget ''bob'',
         GetOrganization GhTarget ''org'', OrgGetMembers GhTarget ''org'']\<rparr>)"
  by (simp add: member_run_defs stranger_api_def quiet_api_def)






text \<open>
  C10. A member that \<open>user_exists_in_org\<close> does not find is recorded with status skipped
  and, in the same step, counted in \<open>members_failed\<close>; hence a run whose details hold a
  skipped member reports \<open>success\<close> false and a positive \<open>members_failed\<close>, which counts
  every member that was not added, skipped ones included.
\<close>

theorem skipped_member_counts_as_failed:
  "(user_exists_in_org api gh_target target_org login (s\<lparr>trace := trace s @ [Log LInfo 159]\<rparr>)
       = (Inr False, s2)
     \<longrightarrow> migrate_member api source_team target_team gh_target target_org login acc s =
          (Inr (acc\<lparr>users_status := AList.update login USkipped (users_status acc),
                     members_failed := members_failed acc + 1,
                     member_details := member_details acc @ [DSkipped login]\<rparr>), s2))
   \<and> (migrate_team_members api source_team target_team gh_target target_org s = (Inr (us, r), s')
       \<and> DSkipped login \<in> set (mr_member_details r)
     \<longrightarrow> mr_success r = False \<and> 0 < mr_members_failed r
         \<and> mr_members_failed r = length (filter (\<lambda>d. \<not> is_DSuccess d) (mr_member_details r)))"
proof (rule conjI; rule impI)
  assume "user_exists_in_org api gh_target target_org login (s\<lparr>trace := trace s @ [Log LInfo 159]\<rparr>)
       = (Inr False, s2)"
  then show "migrate_member api source_team target_team gh_target target_org login acc s =
          (Inr (acc\<lparr>users_status := AList.update login USkipped (users_status acc),
                     members_failed := members_failed acc + 1,
                     member_details := member_details acc @ [DSkipped login]\<rparr>), s2)"
    by (rule migrate_member_skip)
next
  assume a: "migrate_team_members api source_team target_team gh_target target_org s = (Inr (us, r), s')
       \<and> DSkipped login \<in> set (mr_member_details r)"
  obtain res s1 where l: "list_source_members api source_team s = (res, s1)"
    by (cases "list_source_members api source_team s")
  have listed: "\<exists>ms. res = Inr ms"
  proof (cases res)
    case (Inl e)
    then show ?thesis
      using migrate_team_members_listing_fails[OF l[unfolded Inl], of target_team gh_target target_org] a
      by (auto split: if_splits)
  qed simp
  then obtain ms where "res = Inr ms" by blast
  from migrate_team_members_listed[OF l[unfolded this], of target_team gh_target target_org] a
  have s: "mr_success r = (mr_members_failed r = 0)"
    and f: "mr_members_failed r = length (filter (\<lambda>d. \<not> is_DSuccess d) (mr_member_details r))"
    by auto
  have "DSkipped login \<in> set (filter (\<lambda>d. \<not> is_DSuccess d) (mr_member_details r))"
    using a by simp
  then have "0 < length (filter (\<lambda>d. \<not> is_DSuccess d) (mr_member_details r))"
    by (metis length_pos_if_in_set)
  then show "mr_success r = False \<and> 0 < mr_members_failed r
         \<and> mr_members_failed r = length (filter (\<lambda>d. \<not> is_DSuccess d) (mr_member_details r))"
    using s f by simp
qed

theorem skipped_member_counts_as_failed_witness:
  "\<exists>us r s'. migrate_team_members stranger_api src_team tgt_team GhTarget ''org'' s0 = (Inr (us, r), s')
     \<and> mr_member_details r = [DSkipped ''bob'']
     \<and> us = [(''bob'', USkipped)]
     \<and> mr_success r = False \<and> mr_members_failed r = 1 \<and> mr_members_migrated r = 0"
  using skipped_member_counts_as_failed[of stranger_api GhTarget "''org''" "''bob''" s0 _
      src_team tgt_team _ "[(''bob'', USkipped)]"
      "\<lparr>mr_success = False, mr_total_members = 1, mr_members_migrated = 0, mr_members_failed = 1,
         mr_member_details = [DSkipped ''bob'']\<rparr>"]
  by (simp add: stranger_run)

theorem migrate_team_members_success_witness:
  "\<exists>us r s'. migrate_team_members bob_api src_team tgt_team GhTarget ''org'' s0 = (Inr (us, r), s')
     \<and> mr_success r = True \<and> mr_members_failed r = 0 \<and> mr_total_members r = 1"
  using migrate_team_members_success[of bob_api src_team tgt_team GhTarget "''org''" s0]
  by (simp add: bob_run)

section \<open>The binding of a team to an external group\<close>

lemma check_mapping_bound:
  assumes get: "api_request api (Request GET (TeamExternalGroups org_name team_slug) None) (world s)
                  = (Inr response, w1)"
    and ok: "status_code response = 200"
    and doc: "json response = Inr (Some (group_data # others))"
    and match: "expected = None \<or> expected = Some []
        \<or> (\<exists>e n. expected = Some e \<and> g_name group_data = Some n
               \<and> (lower n = lower e \<or> str_in (lower e) (lower n)))"
  shows "check_team_external_group_mapping api org_name team_slug expected s =
     (Inr (True, Some group_data),
      \<lparr>world = w1, trace = trace s @
         [Log LInfo 538, HttpRequest (Request GET (TeamExternalGroups org_name team_slug) None),
          Log LWarning 550]
         @ (if expected = None \<or> expected = Some [] then [] else [Log LSuccess 557])\<rparr>)"
  using get ok doc match
  by (auto simp: check_team_external_group_mapping_def make_github_request_def liftM_def prog_defs)


text \<open>
  C3. When the team is already bound (the binding query answers 200 with a first group)
  and either no expected name is given or the expected name matches the group's name
  case-insensitively, as the same text or as a part of it, then
  \<open>check_team_external_group_mapping\<close> answers True with that group; and
  \<open>map_external_group_to_team\<close>, whose expected name is the team slug, returns True after
  the one GET and the log line "already mapped" (447), with no PATCH and no DELETE.
\<close>

theorem map_external_group_already_mapped:
  assumes get: "api_request api (Request GET (TeamExternalGroups org_name team_slug) None) (world s)
                  = (Inr response, w1)"
    and ok: "status_code response = 200"
    and doc: "json response = Inr (Some (group_data # others))"
    and match: "expected = None \<or> expected = Some []
        \<or> (\<exists>e n. expected = Some e \<and> g_name group_data = Some n
               \<and> (lower n = lower e \<or> str_in (lower e) (lower n)))"
  shows "(\<exists>s'. check_team_external_group_mapping api org_name team_slug expected s
              = (Inr (True, Some group_data), s')
            \<and> filter is_mutating (new_events s s') = [])
     \<and> (expected = Some team_slug \<longrightarrow>
          (\<exists>s'. map_external_group_to_team api org_name team_slug group_id idp_group_cache s
                  = (Inr True, s')
             \<and> filter is_mutating (new_events s s') = []
             \<and> new_events s s' =
                  [Log LInfo 538,
                   HttpRequest (Request GET (TeamExternalGroups org_name team_slug) None),
                   Log LWarning 550]
                  @ (if team_slug = [] then [] else [Log LSuccess 557]) @ [Log LInfo 447]))"
proof (rule conjI)
  show "\<exists>s'. check_team_external_group_mapping api org_name team_slug expected s
              = (Inr (True, Some group_data), s')
            \<and> filter is_mutating (new_events s s') = []"
    using check_mapping_bound[OF get ok doc match] by (simp add: new_events_def)
next
  show "expected = Some team_slug \<longrightarrow>
          (\<exists>s'. map_external_group_to_team api org_name team_slug group_id idp_group_cache s
                  = (Inr True, s')
             \<and> filter is_mutating (new_events s s') = []
             \<and> new_events s s' =
                  [Log LInfo 538,
                   HttpRequest (Request GET (TeamExternalGroups org_name team_slug) None),
                   Log LWarning 550]
                  @ (if team_slug = [] then [] else [Log LSuccess 557]) @ [Log LInfo 447])"
  proof
    assume e: "expected = Some team_slug"
    show "\<exists>s'. map_external_group_to_team api org_name team_slug group_id idp_group_cache s
                  = (Inr True, s')
             \<and> filter is_mutating (new_events s s') = []
             \<and> new_events s s' =
                  [Log LInfo 538,
                   HttpRequest (Request GET (TeamExternalGroups org_name team_slug) None),
                   Log LWarning 550]
                  @ (if team_slug = [] then [] else [Log LSuccess 557]) @ [Log LInfo 447]"
      using check_mapping_bound[OF get ok doc match[unfolded e]]
      by (simp add: map_external_group_to_team_def prog_defs new_events_def)
  qed
qed

lemma developers_binding:
  "api_request (rest_api (bound_to developers) [] 200)
      (Request GET (TeamExternalGroups ''org'' ''Dev'') None) (world s0)
     = (Inr (bound_to developers), ())"
  by (simp add: rest_api_def quiet_api_def)

lemma dev_in_developers: "str_in (lower ''Dev'') (lower ''developers'')"
  by code_simp

theorem map_external_group_already_mapped_witness:
  "\<exists>s'. map_external_group_to_team (rest_api (bound_to developers) [] 200) ''org'' ''Dev'' None None s0
           = (Inr True, s')
      \<and> new_events s0 s' =
           [Log LInfo 538, HttpRequest (Request GET (TeamExternalGroups ''org'' ''Dev'') None),
            Log LWarning 550, Log LSuccess 557, Log LInfo 447]"
  using map_external_group_already_mapped[OF developers_binding,
      where group_data = developers and others = "[]" and expected = "Some ''Dev''"
        and group_id = None and idp_group_cache = None] dev_in_developers
  by (auto simp: bound_to_def developers_def)

lemma check_mapping_shape:
  "\<exists>r s' tr. check_team_external_group_mapping api org_name team_slug expected s = (Inr r, s')
     \<and> trace s' = trace s @ tr \<and> filter is_mutating tr = []"
  by (auto simp: check_team_external_group_mapping_def make_github_request_def liftM_def prog_defs
      split: prod.splits sum.splits option.splits list.splits)

lemma patch_external_group_result:
  assumes "api_request api (Request PATCH (TeamExternalGroups org_name team_slug) (Some gid)) (world s2)
             = (answer, w3)"
  shows "patch_external_group api org_name team_slug gid s2 =
       (case answer of
          Inl e \<Rightarrow> Inl e
        | Inr response \<Rightarrow>
            if status_code response = 200 \<or> status_code response = 201 then Inr True
            else if status_code response = 404 \<or> status_code response = 422
                    \<or> status_code response = 403 then Inr False
            else if 400 \<le> status_code response \<and> status_code response < 600
            then Inl RequestException
            else Inr False,
        \<lparr>world = w3, trace = trace s2 @
           [Log LInfo 488,
            HttpRequest (Request PATCH (TeamExternalGroups org_name team_slug) (Some gid))]
           @ (case answer of
                Inl e \<Rightarrow> []
              | Inr response \<Rightarrow>
                  if status_code response = 200 \<or> status_code response = 201 then [Log LSuccess 492]
                  else if status_code response = 404 then [Log LError 495]
                  else if status_code response = 422 then [Log LError 498]
                  else if status_code response = 403 then [Log LError 501]
                  else [Log LError 504])\<rparr>)"
  using assms
  by (cases answer)
     (auto simp: patch_external_group_def make_github_request_def raise_for_status_def prog_defs)


lemma not_bound_check:
  "check_team_external_group_mapping (rest_api not_bound groups c) ''org'' slug (Some slug) s0 =
     (Inr (False, None),
      \<lparr>world = (), trace = [Log LInfo 538,
         HttpRequest (Request GET (TeamExternalGroups ''org'' slug) None), Log LInfo 569]\<rparr>)"
  by (simp add: check_team_external_group_mapping_def make_github_request_def liftM_def prog_defs
      rest_api_def quiet_api_def not_bound_def s0_def)


lemma find_matching_group_find:
  "\<forall>g \<in> set groups. g_name g \<noteq> None \<Longrightarrow>
   find_matching_group team_slug groups =
     Inr (find (\<lambda>g. map_option lower (g_name g) = Some (lower team_slug)) groups)"
  by (induction groups) auto

lemma patch_external_group_emits:
  "\<exists>r s' tr. patch_external_group api org_name team_slug gid s = (r, s')
     \<and> trace s' = trace s @ tr
     \<and> HttpRequest (Request PATCH (TeamExternalGroups org_name team_slug) (Some gid)) \<in> set tr"
proof -
  obtain answer w3 where
    "api_request api (Request PATCH (TeamExternalGroups org_name team_slug) (Some gid)) (world s)
       = (answer, w3)"
    by (cases "api_request api (Request PATCH (TeamExternalGroups org_name team_slug) (Some gid)) (world s)")
  from patch_external_group_result[OF this]
  obtain r tl where
    p: "patch_external_group api org_name team_slug gid s =
        (r, \<lparr>world = w3, trace = trace s @
           [Log LInfo 488,
            HttpRequest (Request PATCH (TeamExternalGroups org_name team_slug) (Some gid))] @ tl\<rparr>)"
    by blast
  let ?tr = "[Log LInfo 488,
            HttpRequest (Request PATCH (TeamExternalGroups org_name team_slug) (Some gid))] @ tl"
  have "trace \<lparr>world = w3, trace = trace s @ ?tr\<rparr> = trace s @ ?tr" by simp
  moreover have "HttpRequest (Request PATCH (TeamExternalGroups org_name team_slug) (Some gid))
      \<in> set ?tr" by simp
  ultimately show ?thesis using p by blast
qed

lemma resolve_by_search:
  assumes miss: "map_of (case idp_group_cache of None \<Rightarrow> [] | Some c \<Rightarrow> c) (lower team_slug) = None"
    and search: "api_request api (Request GET (ExternalGroups org_name team_slug) None) (world s1)
                  = (Inr response, w2)"
    and ok: "status_code response = 200"
    and doc: "json response = Inr (Some groups)"
    and names: "\<forall>g \<in> set groups. g_name g \<noteq> None"
  shows "resolve_group_id api org_name team_slug None idp_group_cache s1 =
     (Inr (case find (\<lambda>g. map_option lower (g_name g) = Some (lower team_slug)) groups of
             None \<Rightarrow> ReturnFalse | Some g \<Rightarrow> GroupId (g_id g)),
      \<lparr>world = w2, trace = trace s1 @
         [Log LInfo 458, HttpRequest (Request GET (ExternalGroups org_name team_slug) None),
          (case find (\<lambda>g. map_option lower (g_name g) = Some (lower team_slug)) groups of
             None \<Rightarrow> Log LWarning (if groups = [] then 468 else 475)
           | Some g \<Rightarrow> Log LSuccess 480)]\<rparr>)"
  using miss search ok doc find_matching_group_find[OF names, of team_slug]
  by (auto simp: resolve_group_id_def make_github_request_def liftM_def prog_defs Let_def
      split: option.splits)

text \<open>
  C4 (as amended). When the team is not bound, no group id is supplied and the team slug
  is not a key of the cache, the group is looked up by one search by display name. The
  group taken is the first whose name is equal to the team slug up to letter case; a group
  whose name only contains the slug is not taken. With no such group (or an empty list)
  \<open>map_external_group_to_team\<close> returns False after the warning of line 468 or 475 and
  issues no PATCH or DELETE; with such a group it goes on to patch the binding with the id
  of that group.
\<close>

theorem map_external_group_search:
  assumes chk: "check_team_external_group_mapping api org_name team_slug (Some team_slug) s
                  = (Inr (False, existing), s1)"
    and miss: "map_of (case idp_group_cache of None \<Rightarrow> [] | Some c \<Rightarrow> c) (lower team_slug) = None"
    and search: "api_request api (Request GET (ExternalGroups org_name team_slug) None) (world s1)
                  = (Inr response, w2)"
    and ok: "status_code response = 200"
    and doc: "json response = Inr (Some groups)"
    and names: "\<forall>g \<in> set groups. g_name g \<noteq> None"
  shows "case find (\<lambda>g. map_option lower (g_name g) = Some (lower team_slug)) groups of
           None \<Rightarrow>
             (\<exists>s'. map_external_group_to_team api org_name team_slug None idp_group_cache s
                      = (Inr False, s')
                \<and> filter is_mutating (new_events s s') = []
                \<and> Log LWarning (if groups = [] then 468 else 475) \<in> set (new_events s s'))
         | Some g \<Rightarrow>
             (\<exists>s2. resolve_group_id api org_name team_slug None idp_group_cache s1
                      = (Inr (GroupId (g_id g)), s2))
             \<and> (\<exists>r s'. map_external_group_to_team api org_name team_slug None idp_group_cache s
                      = (r, s')
                \<and> HttpRequest (Request PATCH (TeamExternalGroups org_name team_slug) (Some (g_id g)))
                    \<in> set (new_events s s'))"
proof -
  obtain trc where tc: "trace s1 = trace s @ trc" and mc: "filter is_mutating trc = []"
    using check_mapping_shape[of api org_name team_slug "Some team_slug" s] chk by auto
  note rs = resolve_by_search[OF miss search ok doc names]
  show ?thesis
  proof (cases "find (\<lambda>g. map_option lower (g_name g) = Some (lower team_slug)) groups")
    case None
    then show ?thesis using chk rs tc mc
      by (simp add: map_external_group_to_team_def prog_defs new_events_def)
  next
    case (Some g)
    let ?s2 = "\<lparr>world = w2, trace = trace s1 @
         [Log LInfo 458, HttpRequest (Request GET (ExternalGroups org_name team_slug) None),
          Log LSuccess 480]\<rparr>"
    have r2: "resolve_group_id api org_name team_slug None idp_group_cache s1
                = (Inr (GroupId (g_id g)), ?s2)"
      using rs Some by simp
    obtain r s3 tr where p: "patch_external_group api org_name team_slug (g_id g) ?s2 = (r, s3)"
      and t3: "trace s3 = trace ?s2 @ tr"
      and ev: "HttpRequest (Request PATCH (TeamExternalGroups org_name team_slug) (Some (g_id g)))
                 \<in> set tr"
      using patch_external_group_emits[of api org_name team_slug "g_id g" ?s2] by blast
    have "\<exists>r' s'. map_external_group_to_team api org_name team_slug None idp_group_cache s = (r', s')
            \<and> (\<exists>tl. trace s' = trace s3 @ tl)"
      using chk r2 p
      by (cases r) (auto simp: map_external_group_to_team_def prog_defs)
    then obtain r' s' tl where
      m: "map_external_group_to_team api org_name team_slug None idp_group_cache s = (r', s')"
      and tl: "trace s' = trace s3 @ tl" by blast
    have "HttpRequest (Request PATCH (TeamExternalGroups org_name team_slug) (Some (g_id g)))
            \<in> set (new_events s s')"
      using tl t3 tc ev by (simp add: new_events_def)
    then show ?thesis using Some r2 m by auto
  qed
qed

lemma lower_dev: "lower ''dev'' = ''dev''"
  by code_simp

lemma lower_developers: "lower ''developers'' = ''developers''"
  by code_simp

lemma lower_DEV: "lower ''DEV'' = ''dev''"
  by code_simp

text \<open>
  The claim as stated fails: the one group found by the search, \<open>developers\<close>, contains the
  slug \<open>dev\<close>, so a search matching "exact-or-substring" selects it; the function selects no
  group, logs "no matching external group" (line 475) and returns False without a PATCH.
\<close>

theorem substring_group_not_taken_counterexample:
  "spec_find_group ''dev'' [developers] = Some developers
   \<and> map_external_group_to_team (rest_api not_bound [developers] 200) ''org'' ''dev'' None None s0 =
     (Inr False,
      \<lparr>world = (), trace =
        [Log LInfo 538, HttpRequest (Request GET (TeamExternalGroups ''org'' ''dev'') None),
         Log LInfo 569, Log LInfo 458,
         HttpRequest (Request GET (ExternalGroups ''org'' ''dev'') None), Log LWarning 475]\<rparr>)"
  by (simp add: spec_find_group_def developers_def lower_dev lower_developers
      map_external_group_to_team_def check_team_external_group_mapping_def resolve_group_id_def
      make_github_request_def liftM_def prog_defs rest_api_def quiet_api_def not_bound_def s0_def)

lemma search_answer:
  "api_request (rest_api not_bound [developers, dev_upper] 200)
      (Request GET (ExternalGroups ''org'' ''dev'') None)
      (world \<lparr>world = (), trace = [Log LInfo 538,
         HttpRequest (Request GET (TeamExternalGroups ''org'' ''dev'') None), Log LInfo 569]\<rparr>)
     = (Inr \<lparr>status_code = 200, json = Inr (Some [developers, dev_upper])\<rparr>, ())"
  by (simp add: rest_api_def quiet_api_def)

theorem map_external_group_search_witness:
  "\<exists>r s'. map_external_group_to_team (rest_api not_bound [developers, dev_upper] 200)
              ''org'' ''dev'' None None s0 = (r, s')
     \<and> HttpRequest (Request PATCH (TeamExternalGroups ''org'' ''dev'') (Some (Some 8)))
          \<in> set (new_events s0 s')"
  using map_external_group_search[OF not_bound_check[of "[developers, dev_upper]" 200 "''dev''"] _
      search_answer, where idp_group_cache = None and groups = "[developers, dev_upper]"]
  by (simp add: developers_def dev_upper_def lower_dev lower_developers lower_DEV)

section \<open>migrate_teams_optimized: the returned value and the restart\<close>









text \<open>
  C1. On a rate-limit exception from one team the function calls itself with the team
  that was rate limited and the teams after it, so the new invocation covers the remaining
  teams. But every invocation starts with empty status and detail maps (lines 586-587) and
  the value of the new invocation is returned as it is (line 873): what was recorded before
  the exception does not reach the summary. With the teams \<open>ghost\<close> (unknown in the source,
  recorded as failed) and \<open>devs\<close> (rate limited once, then created), the summary names
  \<open>devs\<close> only and the function returns True; on the same platform without the rate
  limit it names \<open>ghost\<close> as failed and the function returns False.
\<close>

theorem restart_drops_recorded_status:
  "migrate_teams_optimized 2 flaky_api GhSource GhTarget ''src'' ''tgt'' ''out''
         (Some [''ghost'', ''devs'']) False False False \<lparr>world = 0, trace = []\<rparr> =
   Some (Inr ([(''devs'', Success)], True),
   \<lparr>world = 2,
      trace =
        [GetOrganization GhSource ''src'', Log LInfo 594,
         OrgGetTeamBySlug GhSource ''src'' ''ghost'', Log LError 619,
         OrgGetTeamBySlug GhSource ''src'' ''devs'', Log LInfo 605,
         Log LInfo 622, Log LInfo 653, GetOrganization GhTarget ''tgt'',
         OrgGetTeams GhTarget ''tgt'', Log LInfo 659, Log LInfo 707,
         Log LInfo 714, Log LInfo 717, Log LError 722, Log LInfo 717,
         GetOrganization GhTarget ''tgt'',
         OrgCreateTeam GhTarget ''tgt'' ''devs'' [] ''closed'',
         Log LError 88, Log LError 94, Log LError 867,
         RateLimitWait GhTarget, GetOrganization GhSource ''src'',
         Log LInfo 594, OrgGetTeamBySlug GhSource ''src'' ''devs'',
         Log LInfo 605, Log LInfo 622, Log LInfo 653,
         GetOrganization GhTarget ''tgt'', OrgGetTeams GhTarget ''tgt'',
         Log LInfo 659, Log LInfo 707, Log LInfo 714, Log LInfo 717,
         GetOrganization GhTarget ''tgt'',
         OrgCreateTeam GhTarget ''tgt'' ''devs'' [] ''closed'',
         Log LSuccess 81,
         WriteSummary ''out'' ''src'' ''tgt'' [''devs''] []
          [(''devs'',
            \<lparr>td_description = [], td_privacy = ''closed'',
               td_total_members = 0, td_members_migrated = 0,
               td_members_failed = 0, td_member_details = [],
               td_idp_group_name = ''devs'',
               td_idp_mapping_status = NotAttempted\<rparr>)]]\<rparr>)
   \<and> migrate_teams_optimized 1 flaky_api GhSource GhTarget ''src'' ''tgt'' ''out''
         (Some [''ghost'', ''devs'']) False False False \<lparr>world = 1, trace = []\<rparr> =
   Some (Inr ([(''ghost'', Failed), (''devs'', Success)], False),
   \<lparr>world = 2,
      trace =
        [GetOrganization GhSource ''src'', Log LInfo 594,
         OrgGetTeamBySlug GhSource ''src'' ''ghost'', Log LError 619,
         OrgGetTeamBySlug GhSource ''src'' ''devs'', Log LInfo 605,
         Log LInfo 622, Log LInfo 653, GetOrganization GhTarget ''tgt'',
         OrgGetTeams GhTarget ''tgt'', Log LInfo 659, Log LInfo 707,
         Log LInfo 714, Log LInfo 717, Log LError 722, Log LInfo 717,
         GetOrganization GhTarget ''tgt'',
         OrgCreateTeam GhTarget ''tgt'' ''devs'' [] ''closed'',
         Log LSuccess 81,
         WriteSummary ''out'' ''src'' ''tgt'' [''devs''] [''ghost'']
          [(''devs'',
            \<lparr>td_description = [], td_privacy = ''closed'',
               td_total_members = 0, td_members_migrated = 0,
               td_members_failed = 0, td_member_details = [],
               td_idp_group_name = ''devs'',
               td_idp_mapping_status = NotAttempted\<rparr>)]]\<rparr>)"
  by code_simp

end
